theory Spec2Isabelle
  imports Main "HOL-Library.Sublist"
begin

section \<open>Go strings\<close>

text \<open>
  A Go \<open>string\<close> is a sequence of bytes, modelled as \<open>string\<close> (a list of 8-bit
  characters). The functions of package \<open>strings\<close> the program calls are modelled at the
  arguments it passes: the separator of \<open>Split\<close> and the pattern of \<open>ReplaceAll\<close> are always
  one byte (\<open>":"\<close> and \<open>"/"\<close>).
\<close>

text \<open>The middle dot U+00B7, two bytes in UTF-8.\<close>

definition middle_dot :: string where
  "middle_dot = [CHR 0xC2, CHR 0xB7]"

text \<open>\<open>strings.ReplaceAll(s, old, new)\<close> for a one-byte \<open>old\<close>.\<close>

fun ReplaceAll :: "string \<Rightarrow> char \<Rightarrow> string \<Rightarrow> string" where
  "ReplaceAll [] old new = []"
| "ReplaceAll (c # s) old new =
     (if c = old then new @ ReplaceAll s old new else c # ReplaceAll s old new)"

text \<open>
  \<open>strings.Split(s, sep)\<close> for a one-byte \<open>sep\<close>: the pieces between the separators, in
  order; a string without separator (the empty string too) gives one piece.
\<close>

fun Split :: "string \<Rightarrow> char \<Rightarrow> string list" where
  "Split [] sep = [[]]"
| "Split (c # s) sep =
     (if c = sep then [] # Split s sep
      else (case Split s sep of [] \<Rightarrow> [[c]] | p # ps \<Rightarrow> (c # p) # ps))"

text \<open>\<open>strings.Join(elems, sep)\<close>.\<close>

fun Join :: "string list \<Rightarrow> string \<Rightarrow> string" where
  "Join [] sep = []"
| "Join [e] sep = e"
| "Join (e # es) sep = e @ sep @ Join es sep"

text \<open>\<open>strings.Contains(s, substr)\<close>, \<open>strings.HasSuffix(s, suffix)\<close>.\<close>

definition Contains :: "string \<Rightarrow> string \<Rightarrow> bool" where
  "Contains s substr = sublist substr s"

definition HasSuffix :: "string \<Rightarrow> string \<Rightarrow> bool" where
  "HasSuffix s suf = suffix suf s"

section \<open>The export file name\<close>

text \<open>
  \<open>ExportImage\<close> (and, line for line, \<open>ExportImageToCloud\<close>) computes the name of the tar
  file in two steps. First the reference is cut at its colons:
  \<^verbatim>\<open>
    nameParts := strings.Split(imageName, ":")
    imageNameOnly := nameParts[0]
    tag := ""
    if len(nameParts) > 1 { tag = nameParts[1] }
  \<close>
  \<open>Split\<close> never returns the empty list (\<open>Split_not_Nil\<close> below), so \<open>nameParts[0]\<close> is
  always in range.
\<close>

definition parseImageName :: "string \<Rightarrow> string \<times> string" where
  "parseImageName imageName =
     (let nameParts = Split imageName CHR '':'';
          imageNameOnly = nameParts ! 0;
          tag = (if length nameParts > 1 then nameParts ! 1 else [])
      in (imageNameOnly, tag))"

text \<open>
  Then the name is sanitized and the parts are put together:
  \<^verbatim>\<open>
    sanitizedImageName := strings.ReplaceAll(imageNameOnly, "/", "\<cdot>")
    var suffixParts []string
    if tag != "" { suffixParts = append(suffixParts, tag) }
    else { suffixParts = append(suffixParts, "latest") }
    if osInfo != "" { suffixParts = append(suffixParts, osInfo) }
    else { suffixParts = append(suffixParts, "unknown") }
    if archInfo != "" { suffixParts = append(suffixParts, archInfo) }
    else { suffixParts = append(suffixParts, "unknown") }
    tarFileName = fmt.Sprintf("%s_%s.tar", sanitizedImageName, strings.Join(suffixParts, "_"))
  \<close>
\<close>

definition canonicalFilename :: "string \<Rightarrow> string \<Rightarrow> string \<Rightarrow> string \<Rightarrow> string" where
  "canonicalFilename imageNameOnly tag osInfo archInfo =
     (let sanitizedImageName = ReplaceAll imageNameOnly CHR ''/'' middle_dot;
          suffixParts = [];
          suffixParts = (if tag \<noteq> [] then suffixParts @ [tag] else suffixParts @ [''latest'']);
          suffixParts = (if osInfo \<noteq> [] then suffixParts @ [osInfo] else suffixParts @ [''unknown'']);
          suffixParts = (if archInfo \<noteq> [] then suffixParts @ [archInfo] else suffixParts @ [''unknown''])
      in sanitizedImageName @ ''_'' @ Join suffixParts ''_'' @ ''.tar'')"

text \<open>The file name \<open>ExportImage\<close> gives the image \<open>imageName\<close> whose inspection reported
  \<open>osInfo\<close> and \<open>archInfo\<close> (both empty when the inspection failed).\<close>

definition tarFileName :: "string \<Rightarrow> string \<Rightarrow> string \<Rightarrow> string" where
  "tarFileName imageName osInfo archInfo =
     (case parseImageName imageName of
        (imageNameOnly, tag) \<Rightarrow> canonicalFilename imageNameOnly tag osInfo archInfo)"

section \<open>Candidate images\<close>

text \<open>Of the daemon's image summaries the program reads the repo tags only.\<close>

record ImageSummary =
  RepoTags :: "string list"

text \<open>
  The body of the inner loop of \<open>ExportImages\<close>, for one repo tag; the pattern is read from
  the process environment (\<open>getenv\<close> gives the empty string for an unset variable):
  \<^verbatim>\<open>
    if tag != "<none>:<none>" {
      if os.Getenv("DKCI_GREP_PATTERN") != "" {
        if strings.Contains(tag, os.Getenv("DKCI_GREP_PATTERN")) {
          imageNames = append(imageNames, tag)
        }
      } else {
        imageNames = append(imageNames, tag)
      }
    }
  \<close>
\<close>

definition ExportImages_addTag :: "(string \<Rightarrow> string) \<Rightarrow> string list \<Rightarrow> string \<Rightarrow> string list" where
  "ExportImages_addTag getenv imageNames tag =
     (if tag \<noteq> ''<none>:<none>'' then
        (if getenv ''DKCI_GREP_PATTERN'' \<noteq> [] then
           (if Contains tag (getenv ''DKCI_GREP_PATTERN'') then imageNames @ [tag] else imageNames)
         else imageNames @ [tag])
      else imageNames)"

text \<open>The two nested loops of \<open>ExportImages\<close>: every repo tag of every image, in order.\<close>

definition ExportImages_imageNames :: "(string \<Rightarrow> string) \<Rightarrow> ImageSummary list \<Rightarrow> string list" where
  "ExportImages_imageNames getenv images =
     foldl (\<lambda>imageNames img. foldl (ExportImages_addTag getenv) imageNames (RepoTags img)) [] images"

text \<open>\<open>ExportImagesToCloud\<close> has the same loops, reading the same environment variable.\<close>

definition ExportImagesToCloud_addTag :: "(string \<Rightarrow> string) \<Rightarrow> string list \<Rightarrow> string \<Rightarrow> string list" where
  "ExportImagesToCloud_addTag getenv imageNames tag =
     (if tag \<noteq> ''<none>:<none>'' then
        (if getenv ''DKCI_GREP_PATTERN'' \<noteq> [] then
           (if Contains tag (getenv ''DKCI_GREP_PATTERN'') then imageNames @ [tag] else imageNames)
         else imageNames @ [tag])
      else imageNames)"

definition ExportImagesToCloud_imageNames :: "(string \<Rightarrow> string) \<Rightarrow> ImageSummary list \<Rightarrow> string list" where
  "ExportImagesToCloud_imageNames getenv images =
     foldl (\<lambda>imageNames img. foldl (ExportImagesToCloud_addTag getenv) imageNames (RepoTags img)) [] images"

text \<open>\<open>DeleteImages\<close> takes the pattern as its parameter \<open>grepPattern\<close>.\<close>

definition DeleteImages_addTag :: "string \<Rightarrow> string list \<Rightarrow> string \<Rightarrow> string list" where
  "DeleteImages_addTag grepPattern imageNames tag =
     (if tag \<noteq> ''<none>:<none>'' then
        (if grepPattern \<noteq> [] then
           (if Contains tag grepPattern then imageNames @ [tag] else imageNames)
         else imageNames @ [tag])
      else imageNames)"

definition DeleteImages_imageNames :: "string \<Rightarrow> ImageSummary list \<Rightarrow> string list" where
  "DeleteImages_imageNames grepPattern images =
     foldl (\<lambda>imageNames img. foldl (DeleteImages_addTag grepPattern) imageNames (RepoTags img)) [] images"

text \<open>
  The options of the multi-select prompt, in all three functions:
  \<^verbatim>\<open>
    if len(imageNames) > 1 { selections = append([]string{"All"}, imageNames...) }
    else { selections = imageNames }
  \<close>
\<close>

definition selections :: "string list \<Rightarrow> string list" where
  "selections imageNames =
     (if length imageNames > 1 then [''All''] @ imageNames else imageNames)"

text \<open>
  The treatment of the answer, in all three functions:
  \<^verbatim>\<open>
    if len(selectedImages) == 1 && selectedImages[0] == "All" { selectedImages = imageNames }
  \<close>
\<close>

definition handleAll :: "string list \<Rightarrow> string list \<Rightarrow> string list" where
  "handleAll imageNames selectedImages =
     (if length selectedImages = 1 \<and> selectedImages ! 0 = ''All'' then imageNames
      else selectedImages)"

section \<open>File paths\<close>

text \<open>
  \<open>strings.ToLower\<close>, on the bytes of the string: the ASCII capitals are lowered, every
  other byte is kept. (Go lowers the capitals beyond ASCII too; their lower-case forms
  are not ASCII, but for the Kelvin sign and the dotted capital I, which become \<open>k\<close> and
  \<open>i\<close>. No extension the program looks for has either letter, so its suffix tests
  read the same bytes in this model.)
\<close>

definition toLowerByte :: "char \<Rightarrow> char" where
  "toLowerByte c =
     (let n = (of_char c :: nat) in if 65 \<le> n \<and> n \<le> 90 then char_of (n + 32) else c)"

definition ToLower :: "string \<Rightarrow> string" where
  "ToLower s = map toLowerByte s"

text \<open>\<open>strings.TrimSuffix(s, suffix)\<close>.\<close>

definition TrimSuffix :: "string \<Rightarrow> string \<Rightarrow> string" where
  "TrimSuffix s suf = (if HasSuffix s suf then take (length s - length suf) s else s)"

text \<open>
  \<open>filepath.Base\<close> on a system whose separator is \<open>/\<close>: the last element of the path,
  trailing separators removed first; \<open>.\<close> for the empty path and \<open>/\<close> for a path of
  separators only.
\<close>

definition Base :: "string \<Rightarrow> string" where
  "Base path =
     (if path = [] then ''.''
      else let p = rev (dropWhile (\<lambda>c. c = CHR ''/'') (rev path));
               p = rev (takeWhile (\<lambda>c. c \<noteq> CHR ''/'') (rev p))
           in if p = [] then ''/'' else p)"

text \<open>
  \<open>filepath.Ext\<close>: the suffix beginning at the final dot in the final element of the path,
  empty if there is no dot.
\<close>

definition Ext :: "string \<Rightarrow> string" where
  "Ext path =
     (let e = takeWhile (\<lambda>c. c \<noteq> CHR ''/'') (rev path)
      in if CHR ''.'' \<in> set e then CHR ''.'' # rev (takeWhile (\<lambda>c. c \<noteq> CHR ''.'') e) else [])"

section \<open>Candidate tar files\<close>

text \<open>
  What \<open>filepath.Walk\<close> passes to its callback at one visit: the path, the file's
  \<open>os.FileInfo\<close> (its \<open>Name()\<close> and \<open>IsDir()\<close>) and the error met on the way there, if any.
\<close>

record FileInfo =
  Name :: string
  IsDir :: bool

record visit =
  walkPath :: string
  walkInfo :: FileInfo
  walkErr :: "string option"

text \<open>
  The callback of \<open>findTarFilesInDirectory\<close>; \<open>Inl\<close> is the error it returns, \<open>Inr\<close> the list
  \<open>tarFiles\<close> after the visit.
  \<^verbatim>\<open>
    if err != nil { return err }
    if !info.IsDir() {
      lowerName := strings.ToLower(info.Name())
      if strings.HasSuffix(lowerName, ".tar") || strings.HasSuffix(lowerName, ".tar.gz") ||
         strings.HasSuffix(lowerName, ".tgz") {
        if grepPattern != "" {
          baseName := strings.TrimSuffix(filepath.Base(path), filepath.Ext(path))
          if strings.Contains(baseName, grepPattern) { tarFiles = append(tarFiles, path) }
        } else {
          tarFiles = append(tarFiles, path)
        }
      }
    }
    return nil
  \<close>
\<close>

definition findTarFilesInDirectory_walkFn :: "string \<Rightarrow> string list \<Rightarrow> visit \<Rightarrow> string + string list" where
  "findTarFilesInDirectory_walkFn grepPattern tarFiles v =
     (case walkErr v of
        Some e \<Rightarrow> Inl e
      | None \<Rightarrow>
          Inr (if \<not> IsDir (walkInfo v) then
                 (let lowerName = ToLower (Name (walkInfo v)) in
                  if HasSuffix lowerName ''.tar'' \<or> HasSuffix lowerName ''.tar.gz'' \<or>
                     HasSuffix lowerName ''.tgz'' then
                    (if grepPattern \<noteq> [] then
                       (let baseName = TrimSuffix (Base (walkPath v)) (Ext (walkPath v)) in
                        if Contains baseName grepPattern then tarFiles @ [walkPath v] else tarFiles)
                     else tarFiles @ [walkPath v])
                  else tarFiles)
               else tarFiles))"

text \<open>
  \<open>filepath.Walk\<close> calls the callback visit by visit and stops at the first error the
  callback returns; \<open>findTarFilesInDirectory\<close> then returns that error and no list. The
  walk of the directory is given as the list of its visits.
\<close>

fun findTarFilesInDirectory_walk :: "string \<Rightarrow> visit list \<Rightarrow> string list \<Rightarrow> string + string list" where
  "findTarFilesInDirectory_walk grepPattern [] tarFiles = Inr tarFiles"
| "findTarFilesInDirectory_walk grepPattern (v # vs) tarFiles =
     (case findTarFilesInDirectory_walkFn grepPattern tarFiles v of
        Inl e \<Rightarrow> Inl e
      | Inr tarFiles' \<Rightarrow> findTarFilesInDirectory_walk grepPattern vs tarFiles')"

definition findTarFilesInDirectory :: "(string \<Rightarrow> visit list) \<Rightarrow> string \<Rightarrow> string \<Rightarrow> string + string list" where
  "findTarFilesInDirectory Walk dirPath grepPattern =
     findTarFilesInDirectory_walk grepPattern (Walk dirPath) []"

text \<open>Of a \<open>pan.FileInfo\<close> of the cloud listing the program reads the path only.\<close>

record pan_FileInfo =
  Path :: string

text \<open>
  The body of the loop of \<open>ImportImagesFromCloud\<close> over the listing of a cloud directory:
  \<^verbatim>\<open>
    if strings.HasSuffix(strings.ToLower(file.Path), ".tar") ||
       strings.HasSuffix(strings.ToLower(file.Path), ".tar.gz") ||
       strings.HasSuffix(strings.ToLower(file.Path), ".tgz") {
      if grepPattern != "" {
        baseName := strings.TrimSuffix(filepath.Base(file.Path), filepath.Ext(file.Path))
        if strings.Contains(baseName, grepPattern) { tarFiles = append(tarFiles, file) }
      } else {
        tarFiles = append(tarFiles, file)
      }
    }
  \<close>
\<close>

definition ImportImagesFromCloud_addFile :: "string \<Rightarrow> pan_FileInfo list \<Rightarrow> pan_FileInfo \<Rightarrow> pan_FileInfo list" where
  "ImportImagesFromCloud_addFile grepPattern tarFiles file =
     (if HasSuffix (ToLower (Path file)) ''.tar'' \<or> HasSuffix (ToLower (Path file)) ''.tar.gz'' \<or>
         HasSuffix (ToLower (Path file)) ''.tgz'' then
        (if grepPattern \<noteq> [] then
           (let baseName = TrimSuffix (Base (Path file)) (Ext (Path file)) in
            if Contains baseName grepPattern then tarFiles @ [file] else tarFiles)
         else tarFiles @ [file])
      else tarFiles)"

definition ImportImagesFromCloud_tarFiles :: "string \<Rightarrow> pan_FileInfo list \<Rightarrow> pan_FileInfo list" where
  "ImportImagesFromCloud_tarFiles grepPattern files =
     foldl (ImportImagesFromCloud_addFile grepPattern) [] files"

section \<open>Selecting tar files\<close>

text \<open>
  \<open>importFromDirectory\<close> offers the base names of the files found, with \<open>All\<close> in front when
  there is more than one file.
\<close>

definition importFromDirectory_selectionOptions :: "string list \<Rightarrow> string list" where
  "importFromDirectory_selectionOptions tarFiles =
     (let selectionOptions = map Base tarFiles
      in if length tarFiles > 1 then [''All''] @ selectionOptions else selectionOptions)"

text \<open>
  Its treatment of the answer \<open>All\<close>:
  \<^verbatim>\<open>
    if len(selectedFiles) == 1 && selectedFiles[0] == "All" {
      // Select all tar files
      for _, file := range tarFiles {
        selectedFiles = append(selectedFiles[1:], filepath.Base(file)) // Replace "All" with actual files
      }
    }
  \<close>
  \<open>selectedFiles\<close> has one element at the start of every turn of the loop, so the slice
  expression \<open>selectedFiles[1:]\<close> is always in range (and always empty).
\<close>

definition importFromDirectory_handleAll :: "string list \<Rightarrow> string list \<Rightarrow> string list" where
  "importFromDirectory_handleAll tarFiles selectedFiles =
     (if length selectedFiles = 1 \<and> selectedFiles ! 0 = ''All'' then
        foldl (\<lambda>selectedFiles file. drop 1 selectedFiles @ [Base file]) selectedFiles tarFiles
      else selectedFiles)"

text \<open>
  The selected names are mapped back to paths: for each name, the first file with that
  base name.
  \<^verbatim>\<open>
    for _, selectedFile := range selectedFiles {
      for _, tarFile := range tarFiles {
        if filepath.Base(tarFile) == selectedFile {
          selectedFilePaths = append(selectedFilePaths, tarFile)
          break
        }
      }
    }
  \<close>
\<close>

definition importFromDirectory_selectedFilePaths :: "string list \<Rightarrow> string list \<Rightarrow> string list" where
  "importFromDirectory_selectedFilePaths tarFiles selectedFiles =
     foldl (\<lambda>selectedFilePaths selectedFile.
              (case find (\<lambda>tarFile. Base tarFile = selectedFile) tarFiles of
                 Some tarFile \<Rightarrow> selectedFilePaths @ [tarFile]
               | None \<Rightarrow> selectedFilePaths))
       [] selectedFiles"

text \<open>
  \<open>ImportImagesFromCloud\<close> does the same over the listing of the cloud directory, but
  builds the answer to \<open>All\<close> in a fresh list:
  \<^verbatim>\<open>
    if len(selectedFiles) == 1 && selectedFiles[0] == "All" {
      selectedFiles = []string{}
      for _, file := range tarFiles {
        selectedFiles = append(selectedFiles, filepath.Base(file.Path))
      }
    }
  \<close>
\<close>

definition ImportImagesFromCloud_selectionOptions :: "pan_FileInfo list \<Rightarrow> string list" where
  "ImportImagesFromCloud_selectionOptions tarFiles =
     (let selectionOptions = map (\<lambda>file. Base (Path file)) tarFiles
      in if length tarFiles > 1 then [''All''] @ selectionOptions else selectionOptions)"

definition ImportImagesFromCloud_handleAll :: "pan_FileInfo list \<Rightarrow> string list \<Rightarrow> string list" where
  "ImportImagesFromCloud_handleAll tarFiles selectedFiles =
     (if length selectedFiles = 1 \<and> selectedFiles ! 0 = ''All'' then
        foldl (\<lambda>selectedFiles file. selectedFiles @ [Base (Path file)]) [] tarFiles
      else selectedFiles)"

definition ImportImagesFromCloud_selectedFilePaths :: "pan_FileInfo list \<Rightarrow> string list \<Rightarrow> string list" where
  "ImportImagesFromCloud_selectedFilePaths tarFiles selectedFiles =
     foldl (\<lambda>selectedFilePaths selectedFile.
              (case find (\<lambda>tarFile. Base (Path tarFile) = selectedFile) tarFiles of
                 Some tarFile \<Rightarrow> selectedFilePaths @ [Path tarFile]
               | None \<Rightarrow> selectedFilePaths))
       [] selectedFiles"

section \<open>Configuration\<close>

text \<open>
  \<open>filepath.Clean\<close> and \<open>filepath.Join\<close> for the separator \<open>/\<close>, element by element: empty
  elements and \<open>.\<close> are dropped, \<open>..\<close> removes the element before it (at the root it is
  dropped, at the start of a relative path it is kept); \<open>Join\<close> cleans the elements from
  the first non-empty one on, joined by the separator.
\<close>

fun cleanElems :: "bool \<Rightarrow> string list \<Rightarrow> string list \<Rightarrow> string list" where
  "cleanElems rooted out [] = rev out"
| "cleanElems rooted out (e # es) =
     (if e = [] \<or> e = ''.'' then cleanElems rooted out es
      else if e = ''..'' then
        (case out of
           [] \<Rightarrow> if rooted then cleanElems rooted out es else cleanElems rooted [''..''] es
         | prev # below \<Rightarrow>
             if prev = ''..'' then cleanElems rooted (''..'' # out) es
             else cleanElems rooted below es)
      else cleanElems rooted (e # out) es)"

definition Clean :: "string \<Rightarrow> string" where
  "Clean path =
     (if path = [] then ''.''
      else let rooted = (hd path = CHR ''/'');
               cleaned = (if rooted then ''/'' else []) @ Join (cleanElems rooted [] (Split path CHR ''/'')) ''/''
           in if cleaned = [] then ''.'' else cleaned)"

definition filepath_Join :: "string list \<Rightarrow> string" where
  "filepath_Join elem =
     (case dropWhile (\<lambda>e. e = []) elem of
        [] \<Rightarrow> []
      | e # es \<Rightarrow> Clean (Join (e # es) ''/''))"

record BDFSConfig =
  ClientID :: string
  ClientSecret :: string
  TokenPath :: string
  DefaultCloudDir :: string

text \<open>
  What \<open>GetBDFSConfig\<close> reads: the environment (\<open>os.Getenv\<close> gives the empty string for an
  unset variable), the home directory (\<open>os.UserHomeDir\<close>) and the files (\<open>os.ReadFile\<close>);
  \<open>Inl\<close> carries the error of a call that failed.
\<close>

record world =
  Getenv :: "string \<Rightarrow> string"
  UserHomeDir :: "string + string"
  ReadFile :: "string \<Rightarrow> string + string"

text \<open>The four errors \<open>GetBDFSConfig\<close> returns, with the values it formats into them.\<close>

datatype config_error =
    HomeDirError string
  | ReadError string string
  | ParseError string
  | MissingFields

text \<open>
  The path of the configuration file:
  \<^verbatim>\<open>
    configFilePath := os.Getenv("BDFS_CONFIG_FILE")
    if configFilePath == "" {
      homeDir, err := os.UserHomeDir()
      if err != nil { return nil, fmt.Errorf("failed to get home directory: %v", err) }
      configFilePath = filepath.Join(homeDir, ".local", "app", "dkci", "config.toml")
    }
  \<close>
\<close>

definition configFilePath :: "world \<Rightarrow> config_error + string" where
  "configFilePath w =
     (let configFilePath = Getenv w ''BDFS_CONFIG_FILE'' in
      if configFilePath = [] then
        (case UserHomeDir w of
           Inl err \<Rightarrow> Inl (HomeDirError err)
         | Inr homeDir \<Rightarrow> Inr (filepath_Join [homeDir, ''.local'', ''app'', ''dkci'', ''config.toml'']))
      else Inr configFilePath)"

text \<open>
  \<open>GetBDFSConfig\<close>. The TOML library is a parameter: \<open>Unmarshal data\<close> is the error of
  \<open>toml.Unmarshal(data, config)\<close> or the record it leaves in \<open>config\<close>, which is the zero
  record (four empty strings) before the call.
\<close>

definition GetBDFSConfig :: "world \<Rightarrow> (string \<Rightarrow> string + BDFSConfig) \<Rightarrow> config_error + BDFSConfig" where
  "GetBDFSConfig w Unmarshal =
     (let clientID = Getenv w ''BDFS_CLIENT_ID'';
          clientSecret = Getenv w ''BDFS_CLIENT_SECRET'';
          tokenPath = Getenv w ''BDFS_TOKEN_PATH'';
          defaultCloudDir = Getenv w ''BDFS_DEFAULT_CLOUD_DIR''
      in if clientID \<noteq> [] \<and> clientSecret \<noteq> [] \<and> tokenPath \<noteq> [] then
           (let config = \<lparr>ClientID = clientID, ClientSecret = clientSecret, TokenPath = tokenPath,
                           DefaultCloudDir = defaultCloudDir\<rparr>
            in Inr (if DefaultCloudDir config = [] then config\<lparr>DefaultCloudDir := ''/''\<rparr> else config))
         else
           (case configFilePath w of
              Inl e \<Rightarrow> Inl e
            | Inr path \<Rightarrow>
                (case ReadFile w path of
                   Inl err \<Rightarrow> Inl (ReadError path err)
                 | Inr data \<Rightarrow>
                     (case Unmarshal data of
                        Inl err \<Rightarrow> Inl (ParseError err)
                      | Inr config \<Rightarrow>
                          if ClientID config = [] \<or> ClientSecret config = [] \<or> TokenPath config = []
                          then Inl MissingFields
                          else Inr (if DefaultCloudDir config = [] then config\<lparr>DefaultCloudDir := ''/''\<rparr>
                                    else config)))))"

section \<open>Effects: the daemon, the files, the cloud and the process\<close>

text \<open>
  The procedures of the program talk to the Docker daemon, the file system, the cloud
  drive and the user, print lines and may end the process with \<open>os.Exit\<close>. All that lies
  outside the program is a state of an arbitrary type \<open>'e\<close>; a call to a collaborator
  takes the state and gives its result (\<open>Inl\<close> the error) and the state after it. A
  procedure gives how it ended, the lines it printed (one per \<open>Printf\<close> or \<open>Println\<close>) and
  the state it leaves. Streams and open files are named by strings. The deferred \<open>Close\<close>
  calls are left out: they print nothing and the program never looks at their results.
\<close>

datatype outcome = Returned | Exited nat

type_synonym ('a, 'e) call = "'e \<Rightarrow> (string + 'a) \<times> 'e"

type_synonym 'e proc = "'e \<Rightarrow> outcome \<times> string list \<times> 'e"

record ImageInspect =
  Os :: string
  Architecture :: string

text \<open>The Docker client: \<open>client.NewClientWithOpts\<close> and the methods of \<open>cli\<close> the program calls.\<close>

record 'e docker =
  NewClientWithOpts :: "(unit, 'e) call"
  ImageInspectWithRaw :: "string \<Rightarrow> (ImageInspect, 'e) call"
  ImageSave :: "string list \<Rightarrow> (string, 'e) call"
  ImageRemove :: "string \<Rightarrow> (unit, 'e) call"
  ImageLoad :: "string \<Rightarrow> (string, 'e) call"

text \<open>
  The file system and the readers: \<open>os.MkdirAll\<close>, \<open>os.Create\<close>, \<open>os.Open\<close>, \<open>os.Stat\<close>,
  \<open>os.Remove\<close>, \<open>file.Stat\<close>, \<open>io.Copy(dst, src)\<close>, \<open>io.ReadAll\<close>, \<open>gzip.NewReader\<close>; the
  visits of \<open>filepath.Walk\<close>; and what the \<open>Next\<close> of a tar reader over a stream returns,
  call by call, before it returns \<open>io.EOF\<close> (an error or the name of the next header).
\<close>

record 'e files =
  os_MkdirAll :: "string \<Rightarrow> (unit, 'e) call"
  os_Create :: "string \<Rightarrow> (string, 'e) call"
  os_Open :: "string \<Rightarrow> (string, 'e) call"
  os_Stat :: "string \<Rightarrow> (FileInfo, 'e) call"
  os_Remove :: "string \<Rightarrow> (unit, 'e) call"
  file_Stat :: "string \<Rightarrow> (FileInfo, 'e) call"
  io_Copy :: "string \<Rightarrow> string \<Rightarrow> (unit, 'e) call"
  io_ReadAll :: "string \<Rightarrow> (string, 'e) call"
  gzip_NewReader :: "string \<Rightarrow> (string, 'e) call"
  filepath_Walk :: "'e \<Rightarrow> string \<Rightarrow> visit list"
  tar_Next :: "string \<Rightarrow> 'e \<Rightarrow> (string + string) list"

text \<open>The cloud client \<open>bdfsClient\<close>.\<close>

record 'e pan =
  UploadFile :: "string \<Rightarrow> string \<Rightarrow> (unit, 'e) call"
  DownloadFile :: "string \<Rightarrow> (string, 'e) call"

text \<open>The check mark U+221A of the success lines, three bytes in UTF-8.\<close>

definition check_mark :: string where
  "check_mark = [CHR 0xE2, CHR 0x88, CHR 0x9A]"

text \<open>
  A \<open>for ... range\<close> loop whose body is a procedure call: the calls run in order, each from
  the state the one before left; a call that ends the process ends the loop with it.
\<close>

fun forEach :: "('a \<Rightarrow> 'e proc) \<Rightarrow> 'a list \<Rightarrow> 'e proc" where
  "forEach body [] s = (Returned, [], s)"
| "forEach body (x # xs) s =
     (case body x s of
        (Exited code, out, s') \<Rightarrow> (Exited code, out, s')
      | (Returned, out, s') \<Rightarrow>
          (case forEach body xs s' of (r, out', s'') \<Rightarrow> (r, out @ out', s'')))"

subsection \<open>Export and delete, image by image\<close>

definition ExportImage :: "'e docker \<Rightarrow> 'e files \<Rightarrow> string \<Rightarrow> string \<Rightarrow> 'e proc" where
  "ExportImage cli fs imageName destination s =
     (case ImageInspectWithRaw cli imageName s of (inspected, s) \<Rightarrow>
      (case (case inspected of
               Inl err \<Rightarrow> ([''Warning: Could not inspect image '' @ imageName @ '': '' @ err], [], [])
             | Inr imageInspect \<Rightarrow> ([], Os imageInspect, Architecture imageInspect))
       of (out, osInfo, archInfo) \<Rightarrow>
         let tarFilePath = filepath_Join [destination, tarFileName imageName osInfo archInfo];
             out = out @ [''Exporting image '' @ imageName @ '' to '' @ tarFilePath @ ''...'']
         in (case ImageSave cli [imageName] s of
               (Inl err, s) \<Rightarrow>
                 (Returned, out @ [''[x] Failed to export image '' @ imageName @ '': '' @ err], s)
             | (Inr imageReader, s) \<Rightarrow>
                 (case os_Create fs tarFilePath s of
                    (Inl err, s) \<Rightarrow>
                      (Returned, out @ [''[x] Failed to create output file '' @ tarFilePath @ '': '' @ err], s)
                  | (Inr outFile, s) \<Rightarrow>
                      (case io_Copy fs outFile imageReader s of
                         (Inl err, s) \<Rightarrow>
                           (Returned, out @ [''[x] Failed to write image '' @ imageName @ '' to file '' @
                              tarFilePath @ '': '' @ err], s)
                       | (Inr _, s) \<Rightarrow>
                           (Returned, out @ [''['' @ check_mark @ ''] Successfully exported image '' @
                              imageName @ '' to '' @ tarFilePath], s))))))"

text \<open>The last loop of \<open>ExportImages\<close>.\<close>

definition ExportImages_loop :: "'e docker \<Rightarrow> 'e files \<Rightarrow> string \<Rightarrow> string list \<Rightarrow> 'e proc" where
  "ExportImages_loop cli fs destination selectedImages =
     forEach (\<lambda>imageName. ExportImage cli fs imageName destination) selectedImages"

definition DeleteImage :: "'e docker \<Rightarrow> string \<Rightarrow> 'e proc" where
  "DeleteImage cli imageName s =
     (let out = [''Deleting image '' @ imageName @ ''...''] in
      case ImageRemove cli imageName s of
        (Inl err, s) \<Rightarrow> (Returned, out @ [''[x] Failed to delete image '' @ imageName @ '': '' @ err], s)
      | (Inr _, s) \<Rightarrow>
          (Returned, out @ [''['' @ check_mark @ ''] Successfully deleted image '' @ imageName], s))"

text \<open>The last loop of \<open>DeleteImages\<close>.\<close>

definition DeleteImages_loop :: "'e docker \<Rightarrow> string list \<Rightarrow> 'e proc" where
  "DeleteImages_loop cli selectedImages = forEach (\<lambda>imageName. DeleteImage cli imageName) selectedImages"

text \<open>
  \<open>ExportImageToCloud\<close>: the image is saved to the temporary directory, uploaded and removed
  there (after a failed upload too, the result of that removal ignored).
\<close>

definition ExportImageToCloud :: "'e docker \<Rightarrow> 'e files \<Rightarrow> 'e pan \<Rightarrow> string \<Rightarrow> string \<Rightarrow> 'e proc" where
  "ExportImageToCloud cli fs bdfsClient imageName cloudPath s =
     (case ImageInspectWithRaw cli imageName s of (inspected, s) \<Rightarrow>
      (case (case inspected of
               Inl err \<Rightarrow> ([''Warning: Could not inspect image '' @ imageName @ '': '' @ err], [], [])
             | Inr imageInspect \<Rightarrow> ([], Os imageInspect, Architecture imageInspect))
       of (out, osInfo, archInfo) \<Rightarrow>
         let tarFileName = tarFileName imageName osInfo archInfo;
             tempDir = ''/tmp/go-dkci''
         in (case os_MkdirAll fs tempDir s of
               (Inl err, s) \<Rightarrow>
                 (Returned, out @ [''[x] Failed to create temp directory '' @ tempDir @ '': '' @ err], s)
             | (Inr _, s) \<Rightarrow>
                 let tempFilePath = filepath_Join [tempDir, tarFileName];
                     out = out @ [''Exporting image '' @ imageName @ '' to temporary file '' @ tempFilePath @ ''...'']
                 in (case ImageSave cli [imageName] s of
                       (Inl err, s) \<Rightarrow>
                         (Returned, out @ [''[x] Failed to export image '' @ imageName @ '': '' @ err], s)
                     | (Inr imageReader, s) \<Rightarrow>
                         (case os_Create fs tempFilePath s of
                            (Inl err, s) \<Rightarrow>
                              (Returned, out @ [''[x] Failed to create temporary file '' @ tempFilePath @
                                 '': '' @ err], s)
                          | (Inr outFile, s) \<Rightarrow>
                              (case io_Copy fs outFile imageReader s of
                                 (Inl err, s) \<Rightarrow>
                                   (Returned, out @ [''[x] Failed to write image '' @ imageName @
                                      '' to temporary file '' @ tempFilePath @ '': '' @ err], s)
                               | (Inr _, s) \<Rightarrow>
                                   let remoteFilePath = filepath_Join [cloudPath, tarFileName];
                                       out = out @ [''Uploading '' @ tempFilePath @ '' to Baidu cloud path '' @
                                                remoteFilePath @ ''...'']
                                   in (case UploadFile bdfsClient tempFilePath remoteFilePath s of
                                         (Inl err, s) \<Rightarrow>
                                           (case os_Remove fs tempFilePath s of (_, s) \<Rightarrow>
                                              (Returned, out @ [''[x] Failed to upload '' @ tempFilePath @
                                                 '' to Baidu cloud: '' @ err], s))
                                       | (Inr _, s) \<Rightarrow>
                                           (case os_Remove fs tempFilePath s of
                                              (removed, s) \<Rightarrow>
                                                (Returned,
                                                 out @
                                                 (case removed of
                                                    Inl err \<Rightarrow> [''Warning: Failed to remove temporary file '' @
                                                                 tempFilePath @ '': '' @ err]
                                                  | Inr _ \<Rightarrow> []) @
                                                 [''['' @ check_mark @ ''] Successfully exported and uploaded image '' @
                                                    imageName @ '' to '' @ remoteFilePath], s)))))))))"

text \<open>The last loop of \<open>ExportImagesToCloud\<close>.\<close>

definition ExportImagesToCloud_loop ::
    "'e docker \<Rightarrow> 'e files \<Rightarrow> 'e pan \<Rightarrow> string \<Rightarrow> string list \<Rightarrow> 'e proc" where
  "ExportImagesToCloud_loop cli fs bdfsClient cloudPath selectedImages =
     forEach (\<lambda>imageName. ExportImageToCloud cli fs bdfsClient imageName cloudPath) selectedImages"

subsection \<open>Import, file by file\<close>

text \<open>
  The loop of \<open>getImageInfoFromTar\<close> over the headers of the archive: it ends at the end of
  the archive, returns the error of \<open>Next\<close>, or reads the entry \<open>manifest.json\<close> (returning
  the error of that read) and ends. The result is the content read, empty without manifest.
\<close>

fun findManifest :: "'e files \<Rightarrow> string \<Rightarrow> (string + string) list \<Rightarrow> (string, 'e) call" where
  "findManifest fs tarReader [] s = (Inr [], s)"
| "findManifest fs tarReader (Inl err # rest) s = (Inl err, s)"
| "findManifest fs tarReader (Inr name # rest) s =
     (if name = ''manifest.json'' then io_ReadAll fs tarReader s
      else findManifest fs tarReader rest s)"

text \<open>
  \<open>getImageInfoFromTar\<close>: an error on the way, or the base name of the file (with or
  without manifest). The \<open>Seek\<close> to the start of an uncompressed file is left out: its
  result is dropped.
\<close>

definition getImageInfoFromTar :: "'e files \<Rightarrow> string \<Rightarrow> (string, 'e) call" where
  "getImageInfoFromTar fs tarPath s =
     (case os_Open fs tarPath s of
        (Inl err, s) \<Rightarrow> (Inl err, s)
      | (Inr file, s) \<Rightarrow>
          (case (if HasSuffix (ToLower tarPath) ''.tar.gz'' \<or> HasSuffix (ToLower tarPath) ''.tgz''
                 then gzip_NewReader fs file s else (Inr file, s)) of
             (Inl err, s) \<Rightarrow> (Inl err, s)
           | (Inr tarReader, s) \<Rightarrow>
               (case findManifest fs tarReader (tar_Next fs tarReader s) s of
                  (Inl err, s) \<Rightarrow> (Inl err, s)
                | (Inr manifestContent, s) \<Rightarrow>
                    (if length manifestContent > 0 then (Inr (Base tarPath), s)
                     else (Inr (Base tarPath), s)))))"

text \<open>\<open>importFromFile\<close>: every failure before the image is loaded and read ends the process.\<close>

definition importFromFile :: "'e docker \<Rightarrow> 'e files \<Rightarrow> string \<Rightarrow> 'e proc" where
  "importFromFile cli fs filePath s =
     (let out = [''Importing image from file: '' @ filePath] in
      case NewClientWithOpts cli s of
        (Inl err, s) \<Rightarrow> (Exited 1, out @ [''[x] Failed to create Docker client: '' @ err], s)
      | (Inr _, s) \<Rightarrow>
          (case os_Open fs filePath s of
             (Inl err, s) \<Rightarrow>
               (Exited 1, out @ [''[x] Failed to open file '' @ filePath @ '': '' @ err], s)
           | (Inr file, s) \<Rightarrow>
               (case file_Stat fs file s of
                  (Inl err, s) \<Rightarrow> (Exited 1, out @ [''[x] Failed to get file info: '' @ err], s)
                | (Inr _, s) \<Rightarrow>
                    (case (if HasSuffix (ToLower filePath) ''.tar.gz'' \<or> HasSuffix (ToLower filePath) ''.tgz''
                           then gzip_NewReader fs file s else (Inr file, s)) of
                       (Inl err, s) \<Rightarrow> (Exited 1, out @ [''[x] Failed to create gzip reader: '' @ err], s)
                     | (Inr imageReader, s) \<Rightarrow>
                         (case ImageLoad cli imageReader s of
                            (Inl err, s) \<Rightarrow>
                              (Exited 1, out @ [''[x] Failed to load image from '' @ filePath @ '': '' @ err], s)
                          | (Inr body, s) \<Rightarrow>
                              (case io_ReadAll fs body s of
                                 (Inl err, s) \<Rightarrow>
                                   (Exited 1, out @ [''[x] Failed to read import response: '' @ err], s)
                               | (Inr _, s) \<Rightarrow>
                                   (case getImageInfoFromTar fs filePath s of
                                      (Inl err, s) \<Rightarrow>
                                        (Returned, out @ [''['' @ check_mark @
                                           ''] Successfully imported image from '' @ filePath], s)
                                    | (Inr imageInfo, s) \<Rightarrow>
                                        (Returned, out @ [''['' @ check_mark @
                                           ''] Successfully imported image from '' @ filePath @ '': '' @
                                           imageInfo], s))))))))"

text \<open>
  \<open>importFromDirectory\<close>; \<open>AskOne\<close> is the multi-select prompt (\<open>survey.AskOne\<close>) with its
  message and options.
\<close>

definition importFromDirectory ::
    "'e docker \<Rightarrow> 'e files \<Rightarrow> (string \<Rightarrow> string list \<Rightarrow> (string list, 'e) call) \<Rightarrow>
     string \<Rightarrow> string \<Rightarrow> 'e proc" where
  "importFromDirectory cli fs AskOne dirPath grepPattern s =
     (case findTarFilesInDirectory (filepath_Walk fs s) dirPath grepPattern of
        Inl err \<Rightarrow> (Exited 1, [''[x] Error finding .tar files: '' @ err], s)
      | Inr tarFiles \<Rightarrow>
          if length tarFiles = 0 then
            (Exited 1, [''[x] No .tar files found in the specified directory''], s)
          else
            (case AskOne ''Select .tar files to import as Docker images:''
                    (importFromDirectory_selectionOptions tarFiles) s of
               (Inl err, s) \<Rightarrow> (Exited 1, [''[x] Failed to get user selection: '' @ err], s)
             | (Inr selectedFiles, s) \<Rightarrow>
                 let selectedFiles = importFromDirectory_handleAll tarFiles selectedFiles in
                 if length selectedFiles = 0 then (Exited 1, [''[x] No files selected for import''], s)
                 else forEach (\<lambda>filePath. importFromFile cli fs filePath)
                        (importFromDirectory_selectedFilePaths tarFiles selectedFiles) s))"

definition ImportImagesFromSource ::
    "'e docker \<Rightarrow> 'e files \<Rightarrow> (string \<Rightarrow> string list \<Rightarrow> (string list, 'e) call) \<Rightarrow>
     string \<Rightarrow> string \<Rightarrow> 'e proc" where
  "ImportImagesFromSource cli fs AskOne source grepPattern s =
     (case os_Stat fs source s of
        (Inl err, s) \<Rightarrow> (Exited 1, [''[x] Error accessing source: '' @ err], s)
      | (Inr fileInfo, s) \<Rightarrow>
          if IsDir fileInfo then importFromDirectory cli fs AskOne source grepPattern s
          else importFromFile cli fs source s)"

text \<open>
  \<open>downloadAndImportFromCloud\<close>: the file is downloaded to the temporary directory and
  imported from there by \<open>ImportImagesFromSource\<close>; the temporary file is removed when
  that call returns.
\<close>

definition downloadAndImportFromCloud ::
    "'e docker \<Rightarrow> 'e files \<Rightarrow> 'e pan \<Rightarrow> (string \<Rightarrow> string list \<Rightarrow> (string list, 'e) call) \<Rightarrow>
     string \<Rightarrow> 'e proc" where
  "downloadAndImportFromCloud cli fs bdfsClient AskOne cloudFilePath s =
     (let tempDir = ''/tmp/go-dkci'' in
      case os_MkdirAll fs tempDir s of
        (Inl err, s) \<Rightarrow> (Exited 1, [''[x] Failed to create temp directory '' @ tempDir @ '': '' @ err], s)
      | (Inr _, s) \<Rightarrow>
          let localFilePath = filepath_Join [tempDir, Base cloudFilePath];
              out = [''Downloading '' @ cloudFilePath @ '' from Baidu cloud to temporary file '' @
                       localFilePath @ ''...'']
          in (case DownloadFile bdfsClient cloudFilePath s of
                (Inl err, s) \<Rightarrow>
                  (Exited 1, out @ [''[x] Failed to download '' @ cloudFilePath @ '' from Baidu cloud: '' @ err], s)
              | (Inr body, s) \<Rightarrow>
                  (case os_Create fs localFilePath s of
                     (Inl err, s) \<Rightarrow>
                       (Exited 1, out @ [''[x] Failed to create local file '' @ localFilePath @ '': '' @ err], s)
                   | (Inr outFile, s) \<Rightarrow>
                       (case io_Copy fs outFile body s of
                          (Inl err, s) \<Rightarrow>
                            (Exited 1, out @ [''[x] Failed to write downloaded content to '' @ localFilePath @
                               '': '' @ err], s)
                        | (Inr _, s) \<Rightarrow>
                            (case ImportImagesFromSource cli fs AskOne localFilePath [] s of
                               (Exited code, out', s) \<Rightarrow> (Exited code, out @ out', s)
                             | (Returned, out', s) \<Rightarrow>
                                 (case os_Remove fs localFilePath s of
                                    (Inl err, s) \<Rightarrow>
                                      (Returned, out @ out' @ [''Warning: Failed to remove temporary file '' @
                                         localFilePath @ '': '' @ err], s)
                                  | (Inr _, s) \<Rightarrow> (Returned, out @ out', s)))))))"

text \<open>
  The branch of \<open>ImportImagesFromCloud\<close> for a cloud directory, from its listing \<open>files\<close> on:
  the candidates, the prompt, the selection and the loop over the selected paths.
\<close>

definition ImportImagesFromCloud_directory ::
    "'e docker \<Rightarrow> 'e files \<Rightarrow> 'e pan \<Rightarrow> (string \<Rightarrow> string list \<Rightarrow> (string list, 'e) call) \<Rightarrow>
     pan_FileInfo list \<Rightarrow> string \<Rightarrow> 'e proc" where
  "ImportImagesFromCloud_directory cli fs bdfsClient AskOne files grepPattern s =
     (let tarFiles = ImportImagesFromCloud_tarFiles grepPattern files in
      if length tarFiles = 0 then
        (Exited 1, [''[x] No .tar files found in the specified cloud directory''], s)
      else
        (case AskOne ''Select .tar files to download and import as Docker images:''
                (ImportImagesFromCloud_selectionOptions tarFiles) s of
           (Inl err, s) \<Rightarrow> (Exited 1, [''[x] Failed to get user selection: '' @ err], s)
         | (Inr selectedFiles, s) \<Rightarrow>
             let selectedFiles = ImportImagesFromCloud_handleAll tarFiles selectedFiles in
             if length selectedFiles = 0 then (Exited 1, [''[x] No files selected for import''], s)
             else forEach (\<lambda>filePath. downloadAndImportFromCloud cli fs bdfsClient AskOne filePath)
                    (ImportImagesFromCloud_selectedFilePaths tarFiles selectedFiles) s))"

section \<open>The substring filter of the specification\<close>

text \<open>
  Contract B in the words of the specification: the empty pattern matches everything;
  otherwise the pattern has to be a literal substring of the candidate's name.
\<close>

definition matches :: "string \<Rightarrow> string \<Rightarrow> bool" where
  "matches candidateBaseName pattern = (pattern = [] \<or> sublist pattern candidateBaseName)"

text \<open>
  Contract C speaks of names that end, case-insensitively, in \<open>.tar\<close>, \<open>.tar.gz\<close> or
  \<open>.tgz\<close>, and of a name's extension-stripped base name: the name without the one of
  these three extensions it ends in.
\<close>

definition endsInFold :: "string \<Rightarrow> string \<Rightarrow> bool" where
  "endsInFold name ext = suffix ext (ToLower name)"

definition hasTarExtension :: "string \<Rightarrow> bool" where
  "hasTarExtension name =
     (endsInFold name ''.tar'' \<or> endsInFold name ''.tar.gz'' \<or> endsInFold name ''.tgz'')"

definition extensionStripped :: "string \<Rightarrow> string" where
  "extensionStripped name =
     (if endsInFold name ''.tar.gz'' then take (length name - 7) name
      else if endsInFold name ''.tar'' \<or> endsInFold name ''.tgz'' then take (length name - 4) name
      else name)"

section \<open>Collaborators for the examples\<close>

text \<open>
  A daemon that can neither save nor remove the image \<open>b:1\<close> and cannot load a file named
  \<open>corrupt.tar\<close>; the state is the list of the images removed and the files loaded.
\<close>

definition example_cli :: "string list docker" where
  "example_cli =
     \<lparr>NewClientWithOpts = (\<lambda>s. (Inr (), s)),
      ImageInspectWithRaw = (\<lambda>imageName s. (Inr \<lparr>Os = ''linux'', Architecture = ''amd64''\<rparr>, s)),
      ImageSave = (\<lambda>names s. if names = [''b:1''] then (Inl ''No such image'', s) else (Inr ''stream'', s)),
      ImageRemove = (\<lambda>imageName s.
         if imageName = ''b:1'' then (Inl ''image is in use'', s) else (Inr (), s @ [imageName])),
      ImageLoad = (\<lambda>reader s.
         if Base reader = ''corrupt.tar'' then (Inl ''invalid tar header'', s) else (Inr ''body'', s @ [reader]))\<rparr>"

text \<open>
  A file system whose directory \<open>/d\<close> holds \<open>a.tar\<close>, \<open>corrupt.tar\<close> and \<open>e.tar\<close>, without
  \<open>/d/missing.tar\<close>, whose \<open>/d/bad.tgz\<close> is no gzip file; every archive holds a manifest.
\<close>

definition example_fs :: "string list files" where
  "example_fs =
     \<lparr>os_MkdirAll = (\<lambda>path s. (Inr (), s)),
      os_Create = (\<lambda>path s. (Inr path, s)),
      os_Open = (\<lambda>path s.
         if path = ''/d/missing.tar'' then (Inl ''no such file or directory'', s) else (Inr path, s)),
      os_Stat = (\<lambda>path s. (Inr \<lparr>Name = Base path, IsDir = (path = ''/d'')\<rparr>, s)),
      os_Remove = (\<lambda>path s. (Inr (), s)),
      file_Stat = (\<lambda>file s. (Inr \<lparr>Name = Base file, IsDir = False\<rparr>, s)),
      io_Copy = (\<lambda>dst src s. (Inr (), s)),
      io_ReadAll = (\<lambda>reader s. (Inr ''[]'', s)),
      gzip_NewReader = (\<lambda>file s.
         if file = ''/d/bad.tgz'' then (Inl ''gzip: invalid header'', s) else (Inr file, s)),
      filepath_Walk = (\<lambda>s dirPath.
         if dirPath = ''/d'' then
           [\<lparr>walkPath = ''/d'', walkInfo = \<lparr>Name = ''d'', IsDir = True\<rparr>, walkErr = None\<rparr>,
            \<lparr>walkPath = ''/d/a.tar'', walkInfo = \<lparr>Name = ''a.tar'', IsDir = False\<rparr>, walkErr = None\<rparr>,
            \<lparr>walkPath = ''/d/corrupt.tar'', walkInfo = \<lparr>Name = ''corrupt.tar'', IsDir = False\<rparr>,
             walkErr = None\<rparr>,
            \<lparr>walkPath = ''/d/e.tar'', walkInfo = \<lparr>Name = ''e.tar'', IsDir = False\<rparr>, walkErr = None\<rparr>]
         else []),
      tar_Next = (\<lambda>reader s. [Inr ''manifest.json''])\<rparr>"

definition example_pan :: "string list pan" where
  "example_pan =
     \<lparr>UploadFile = (\<lambda>localPath remotePath s. (Inr (), s)),
      DownloadFile = (\<lambda>remotePath s. (Inr ''content'', s))\<rparr>"

section \<open>Properties of the file name\<close>

lemma Split_not_Nil: "Split s sep \<noteq> []"
  by (induction s) (auto split: list.splits)

lemma ReplaceAll_concat:
  "ReplaceAll s old new = concat (map (\<lambda>c. if c = old then new else [c]) s)"
  by (induction s) auto

lemma ReplaceAll_removes: "old \<notin> set new \<Longrightarrow> old \<notin> set (ReplaceAll s old new)"
  by (induction s) auto

lemma canonicalFilename_eq:
  "canonicalFilename n t os ar =
     ReplaceAll n CHR ''/'' middle_dot @ ''_'' @ (if t = [] then ''latest'' else t) @ ''_'' @
     (if os = [] then ''unknown'' else os) @ ''_'' @ (if ar = [] then ''unknown'' else ar) @ ''.tar''"
  by (simp add: canonicalFilename_def)

text \<open>Without a slash in the tag, the OS and the architecture the file name has none.\<close>

lemma canonicalFilename_no_slash:
  assumes "CHR ''/'' \<notin> set t" "CHR ''/'' \<notin> set os" "CHR ''/'' \<notin> set ar"
  shows "CHR ''/'' \<notin> set (canonicalFilename n t os ar)"
proof -
  have "CHR ''/'' \<notin> set (ReplaceAll n CHR ''/'' middle_dot)"
    by (rule ReplaceAll_removes) (simp add: middle_dot_def)
  with assms show ?thesis
    by (simp add: canonicalFilename_eq)
qed

text \<open>
  C7. The file name is a function of the name portion, the tag, the OS and the
  architecture: the name portion with every \<open>/\<close> replaced by the middle dot (and every
  other byte kept), then \<open>_\<close> and the tag (\<open>latest\<close> when empty), \<open>_\<close> and the OS
  (\<open>unknown\<close> when empty), \<open>_\<close> and the architecture (\<open>unknown\<close> when empty), then
  \<open>.tar\<close>. For \<open>my/app\<close> with nothing else known it is \<open>my\<cdot>app_latest_unknown_unknown.tar\<close>,
  also when computed by \<open>ExportImage\<close> from the reference \<open>my/app\<close>.
\<close>

theorem canonicalFilename_format:
  "canonicalFilename n t os ar =
     concat (map (\<lambda>c. if c = CHR ''/'' then middle_dot else [c]) n) @ ''_'' @
     (if t = [] then ''latest'' else t) @ ''_'' @
     (if os = [] then ''unknown'' else os) @ ''_'' @
     (if ar = [] then ''unknown'' else ar) @ ''.tar''
   \<and> canonicalFilename ''my/app'' [] [] [] = ''my'' @ middle_dot @ ''app_latest_unknown_unknown.tar''
   \<and> tarFileName ''my/app'' [] [] = ''my'' @ middle_dot @ ''app_latest_unknown_unknown.tar''"
  by (simp add: canonicalFilename_eq ReplaceAll_concat tarFileName_def parseImageName_def)

theorem canonicalFilename_format_witness:
  "canonicalFilename ''nginx'' ''latest'' ''linux'' ''amd64'' = ''nginx_latest_linux_amd64.tar''"
  using canonicalFilename_format [of "''nginx''" "''latest''" "''linux''" "''amd64''"]
  by simp

text \<open>
  C2. A reference with a registry port, \<open>localhost:5000/my/app:v1\<close>, is cut at its first
  colon: the name portion is \<open>localhost\<close>, the "tag" is \<open>5000/my/app\<close>, and the file name
  \<open>localhost_5000/my/app_linux_amd64.tar\<close> has two slashes.
\<close>

theorem tarFileName_registry_port:
  "tarFileName ''localhost:5000/my/app:v1'' ''linux'' ''amd64'' = ''localhost_5000/my/app_linux_amd64.tar''
   \<and> CHR ''/'' \<in> set (tarFileName ''localhost:5000/my/app:v1'' ''linux'' ''amd64'')"
  by (simp add: tarFileName_def parseImageName_def canonicalFilename_eq)

section \<open>Properties of the candidate images\<close>

lemma ExportImages_addTag_eq:
  "ExportImages_addTag getenv names tag =
     (if tag \<noteq> ''<none>:<none>'' \<and> matches tag (getenv ''DKCI_GREP_PATTERN'') then names @ [tag] else names)"
  by (simp add: ExportImages_addTag_def matches_def Contains_def)

lemma ExportImagesToCloud_addTag_eq:
  "ExportImagesToCloud_addTag getenv names tag =
     (if tag \<noteq> ''<none>:<none>'' \<and> matches tag (getenv ''DKCI_GREP_PATTERN'') then names @ [tag] else names)"
  by (simp add: ExportImagesToCloud_addTag_def matches_def Contains_def)

lemma DeleteImages_addTag_eq:
  "DeleteImages_addTag grepPattern names tag =
     (if tag \<noteq> ''<none>:<none>'' \<and> matches tag grepPattern then names @ [tag] else names)"
  by (simp add: DeleteImages_addTag_def matches_def Contains_def)

text \<open>A loop that appends the elements passing a test computes a filter.\<close>

lemma foldl_append_filter:
  assumes "\<And>acc x. f acc x = (if P x then acc @ [x] else acc)"
  shows "foldl f acc xs = acc @ filter P xs"
  by (induction xs arbitrary: acc) (simp_all add: assms)

lemma foldl_nested_filter:
  assumes "\<And>acc x. f acc x = (if P x then acc @ [x] else acc)"
  shows "foldl (\<lambda>acc img. foldl f acc (g img)) acc imgs = acc @ filter P (concat (map g imgs))"
  by (induction imgs arbitrary: acc) (simp_all add: foldl_append_filter [of f P, OF assms])

lemma ExportImages_imageNames_eq:
  "ExportImages_imageNames getenv images =
     filter (\<lambda>tag. tag \<noteq> ''<none>:<none>'' \<and> matches tag (getenv ''DKCI_GREP_PATTERN''))
       (concat (map RepoTags images))"
  unfolding ExportImages_imageNames_def
  by (subst foldl_nested_filter [where P = "\<lambda>tag. tag \<noteq> ''<none>:<none>'' \<and> matches tag (getenv ''DKCI_GREP_PATTERN'')"])
     (simp_all add: ExportImages_addTag_eq)

lemma ExportImagesToCloud_imageNames_eq:
  "ExportImagesToCloud_imageNames getenv images =
     filter (\<lambda>tag. tag \<noteq> ''<none>:<none>'' \<and> matches tag (getenv ''DKCI_GREP_PATTERN''))
       (concat (map RepoTags images))"
  unfolding ExportImagesToCloud_imageNames_def
  by (subst foldl_nested_filter [where P = "\<lambda>tag. tag \<noteq> ''<none>:<none>'' \<and> matches tag (getenv ''DKCI_GREP_PATTERN'')"])
     (simp_all add: ExportImagesToCloud_addTag_eq)

lemma DeleteImages_imageNames_eq:
  "DeleteImages_imageNames grepPattern images =
     filter (\<lambda>tag. tag \<noteq> ''<none>:<none>'' \<and> matches tag grepPattern)
       (concat (map RepoTags images))"
  unfolding DeleteImages_imageNames_def
  by (subst foldl_nested_filter [where P = "\<lambda>tag. tag \<noteq> ''<none>:<none>'' \<and> matches tag grepPattern"])
     (simp_all add: DeleteImages_addTag_eq)

lemma selections_set: "set (selections names) \<subseteq> insert ''All'' (set names)"
  by (auto simp: selections_def)

text \<open>
  C10. In local export, cloud export and delete alike, the candidate list is the daemon's
  repo tags, in order, without the tags equal to \<open><none>:<none>\<close> (and without those the
  pattern rejects); so \<open><none>:<none>\<close> is neither a candidate nor an option of the prompt.
\<close>

theorem none_tag_excluded:
  "ExportImages_imageNames getenv images =
     filter (\<lambda>tag. tag \<noteq> ''<none>:<none>'' \<and> matches tag (getenv ''DKCI_GREP_PATTERN''))
       (concat (map RepoTags images))
   \<and> ExportImagesToCloud_imageNames getenv images =
     filter (\<lambda>tag. tag \<noteq> ''<none>:<none>'' \<and> matches tag (getenv ''DKCI_GREP_PATTERN''))
       (concat (map RepoTags images))
   \<and> DeleteImages_imageNames grepPattern images =
     filter (\<lambda>tag. tag \<noteq> ''<none>:<none>'' \<and> matches tag grepPattern)
       (concat (map RepoTags images))
   \<and> ''<none>:<none>'' \<notin> set (selections (ExportImages_imageNames getenv images))
   \<and> ''<none>:<none>'' \<notin> set (selections (ExportImagesToCloud_imageNames getenv images))
   \<and> ''<none>:<none>'' \<notin> set (selections (DeleteImages_imageNames grepPattern images))"
proof -
  have sel: "''<none>:<none>'' \<notin> set (selections names)" if "''<none>:<none>'' \<notin> set names" for names
    using that selections_set [of names] by auto
  show ?thesis
    by (intro conjI sel)
       (simp_all add: ExportImages_imageNames_eq ExportImagesToCloud_imageNames_eq
          DeleteImages_imageNames_eq)
qed

theorem none_tag_excluded_witness:
  "DeleteImages_imageNames []
     [\<lparr>RepoTags = [''nginx:latest'', ''<none>:<none>'']\<rparr>, \<lparr>RepoTags = [''<none>:<none>'', ''my/app:v1'']\<rparr>]
   = [''nginx:latest'', ''my/app:v1'']"
  using none_tag_excluded [of "\<lambda>_. []"
      "[\<lparr>RepoTags = [''nginx:latest'', ''<none>:<none>'']\<rparr>, \<lparr>RepoTags = [''<none>:<none>'', ''my/app:v1'']\<rparr>]" "[]"]
  by (simp add: matches_def)

section \<open>Properties of the candidate tar files\<close>



text \<open>Lowering never yields a slash or a dot from another byte.\<close>

lemma toLowerByte_fixed:
  "of_char c < (65::nat) \<Longrightarrow> toLowerByte c = c"
  by (simp add: toLowerByte_def Let_def)













text \<open>The two loops as filters, in the terms of the code.\<close>

lemma walkFn_code:
  "findTarFilesInDirectory_walkFn grepPattern tarFiles v =
     (case walkErr v of
        Some e \<Rightarrow> Inl e
      | None \<Rightarrow>
          Inr (if \<not> IsDir (walkInfo v) \<and> hasTarExtension (Name (walkInfo v)) \<and>
                  matches (TrimSuffix (Base (walkPath v)) (Ext (walkPath v))) grepPattern
               then tarFiles @ [walkPath v] else tarFiles))"
  by (simp add: findTarFilesInDirectory_walkFn_def hasTarExtension_def endsInFold_def
      HasSuffix_def matches_def Contains_def Let_def split: option.splits)

lemma addFile_code:
  "ImportImagesFromCloud_addFile grepPattern tarFiles file =
     (if hasTarExtension (Path file) \<and> matches (TrimSuffix (Base (Path file)) (Ext (Path file))) grepPattern
      then tarFiles @ [file] else tarFiles)"
  by (simp add: ImportImagesFromCloud_addFile_def hasTarExtension_def endsInFold_def
      HasSuffix_def matches_def Contains_def Let_def)


lemma cloud_code:
  "ImportImagesFromCloud_tarFiles grepPattern files =
     filter (\<lambda>f. hasTarExtension (Path f) \<and>
       matches (TrimSuffix (Base (Path f)) (Ext (Path f))) grepPattern) files"
  unfolding ImportImagesFromCloud_tarFiles_def
  by (subst foldl_append_filter [where P = "\<lambda>f. hasTarExtension (Path f) \<and>
        matches (TrimSuffix (Base (Path f)) (Ext (Path f))) grepPattern"])
     (simp_all add: addFile_code)







text \<open>
  Both loops strip what \<open>filepath.Ext\<close> returns, the last extension: of \<open>redis.tar.gz\<close> the
  pattern sees \<open>redis.tar\<close>, so the pattern \<open>tar\<close> keeps \<open>redis.tar.gz\<close> and drops \<open>redis.tar\<close>,
  although the name without its extension is \<open>redis\<close> for both.
\<close>

lemma tar_gz_stripped_of_last_extension_only:
  "findTarFilesInDirectory
     (\<lambda>_. [\<lparr>walkPath = ''/d/redis.tar'', walkInfo = \<lparr>Name = ''redis.tar'', IsDir = False\<rparr>, walkErr = None\<rparr>,
           \<lparr>walkPath = ''/d/redis.tar.gz'', walkInfo = \<lparr>Name = ''redis.tar.gz'', IsDir = False\<rparr>, walkErr = None\<rparr>])
     ''/d'' ''tar'' = Inr [''/d/redis.tar.gz'']
   \<and> ImportImagesFromCloud_tarFiles ''tar'' [\<lparr>Path = ''/c/redis.tar''\<rparr>, \<lparr>Path = ''/c/redis.tar.gz''\<rparr>] =
       [\<lparr>Path = ''/c/redis.tar.gz''\<rparr>]
   \<and> extensionStripped ''redis.tar.gz'' = ''redis''
   \<and> \<not> matches ''redis'' ''tar''"
proof -
  have ext: "hasTarExtension ''redis.tar''" "hasTarExtension ''redis.tar.gz''"
    "hasTarExtension ''/c/redis.tar''" "hasTarExtension ''/c/redis.tar.gz''"
    by code_simp+
  have strip: "TrimSuffix (Base ''/d/redis.tar'') (Ext ''/d/redis.tar'') = ''redis''"
    "TrimSuffix (Base ''/d/redis.tar.gz'') (Ext ''/d/redis.tar.gz'') = ''redis.tar''"
    "TrimSuffix (Base ''/c/redis.tar'') (Ext ''/c/redis.tar'') = ''redis''"
    "TrimSuffix (Base ''/c/redis.tar.gz'') (Ext ''/c/redis.tar.gz'') = ''redis.tar''"
    "extensionStripped ''redis.tar.gz'' = ''redis''"
    by code_simp+
  have m: "\<not> matches ''redis'' ''tar''" "matches ''redis.tar'' ''tar''"
    by code_simp+
  show ?thesis
    by (simp add: findTarFilesInDirectory_def walkFn_code cloud_code ext strip m)
qed




section \<open>Properties of the selection\<close>

text \<open>The image operations and the cloud import answer \<open>All\<close> with every candidate.\<close>

lemma handleAll_All: "handleAll imageNames [''All''] = imageNames"
  by (simp add: handleAll_def)

lemma ImportImagesFromCloud_handleAll_All:
  "ImportImagesFromCloud_handleAll tarFiles [''All''] = map (\<lambda>f. Base (Path f)) tarFiles"
proof -
  have "foldl (\<lambda>selectedFiles file. selectedFiles @ [Base (Path file)]) acc tarFiles =
      acc @ map (\<lambda>f. Base (Path f)) tarFiles" for acc
    by (induction tarFiles arbitrary: acc) simp_all
  then show ?thesis by (simp add: ImportImagesFromCloud_handleAll_def)
qed

text \<open>
  The loop of \<open>importFromDirectory\<close> drops the first element of the selection at every
  turn, not only the sentinel at the first: the selection has one element throughout, and
  the last file is all that is left.
\<close>

lemma importFromDirectory_handleAll_loop:
  "length sel = 1 \<Longrightarrow>
   foldl (\<lambda>selectedFiles file. drop 1 selectedFiles @ [Base file]) sel tarFiles =
     (if tarFiles = [] then sel else [Base (last tarFiles)])"
  by (induction tarFiles arbitrary: sel) auto

lemma importFromDirectory_handleAll_last:
  "tarFiles \<noteq> [] \<Longrightarrow> importFromDirectory_handleAll tarFiles [''All''] = [Base (last tarFiles)]"
  using importFromDirectory_handleAll_loop [of "[''All'']" tarFiles]
  by (simp add: importFromDirectory_handleAll_def)

text \<open>
  C1. With two files found in the directory, \<open>importFromDirectory\<close> offers \<open>All\<close> and both
  base names; the answer \<open>All\<close> is reconciled to the second file alone, and only its path
  is handed to the import.
\<close>

theorem importFromDirectory_All_keeps_last_only:
  "importFromDirectory_selectionOptions [''/d/a.tar'', ''/d/b.tar''] = [''All'', ''a.tar'', ''b.tar'']
   \<and> importFromDirectory_handleAll [''/d/a.tar'', ''/d/b.tar''] [''All''] = [''b.tar'']
   \<and> importFromDirectory_selectedFilePaths [''/d/a.tar'', ''/d/b.tar'']
       (importFromDirectory_handleAll [''/d/a.tar'', ''/d/b.tar''] [''All'']) = [''/d/b.tar'']"
  by (simp add: importFromDirectory_selectionOptions_def importFromDirectory_handleAll_def
      importFromDirectory_selectedFilePaths_def Base_def)

section \<open>Properties of the configuration\<close>

lemma GetBDFSConfig_env:
  assumes "Getenv w ''BDFS_CLIENT_ID'' \<noteq> []" "Getenv w ''BDFS_CLIENT_SECRET'' \<noteq> []"
    "Getenv w ''BDFS_TOKEN_PATH'' \<noteq> []"
  shows "GetBDFSConfig w Unmarshal =
     Inr \<lparr>ClientID = Getenv w ''BDFS_CLIENT_ID'', ClientSecret = Getenv w ''BDFS_CLIENT_SECRET'',
          TokenPath = Getenv w ''BDFS_TOKEN_PATH'',
          DefaultCloudDir = (if Getenv w ''BDFS_DEFAULT_CLOUD_DIR'' = [] then ''/''
                             else Getenv w ''BDFS_DEFAULT_CLOUD_DIR'')\<rparr>"
  using assms by (simp add: GetBDFSConfig_def)

lemma GetBDFSConfig_file:
  assumes "\<not> (Getenv w ''BDFS_CLIENT_ID'' \<noteq> [] \<and> Getenv w ''BDFS_CLIENT_SECRET'' \<noteq> [] \<and>
    Getenv w ''BDFS_TOKEN_PATH'' \<noteq> [])"
  shows "GetBDFSConfig w Unmarshal =
           (case configFilePath w of
              Inl e \<Rightarrow> Inl e
            | Inr path \<Rightarrow>
                (case ReadFile w path of
                   Inl err \<Rightarrow> Inl (ReadError path err)
                 | Inr data \<Rightarrow>
                     (case Unmarshal data of
                        Inl err \<Rightarrow> Inl (ParseError err)
                      | Inr config \<Rightarrow>
                          if ClientID config = [] \<or> ClientSecret config = [] \<or> TokenPath config = []
                          then Inl MissingFields
                          else Inr (if DefaultCloudDir config = [] then config\<lparr>DefaultCloudDir := ''/''\<rparr>
                                    else config))))"
  using assms unfolding GetBDFSConfig_def Let_def by (simp only: if_False)

lemma configFilePath_not_MissingFields: "configFilePath w \<noteq> Inl MissingFields"
  by (auto simp: configFilePath_def Let_def split: sum.splits)

text \<open>
  C5. When the three environment variables are all non-empty, the resolved record is built
  from the environment alone: two worlds with the same environment resolve to the same
  record, whatever their home directories, their files and the parser say.
\<close>

theorem env_precedence:
  assumes "Getenv w ''BDFS_CLIENT_ID'' \<noteq> []"
    and "Getenv w ''BDFS_CLIENT_SECRET'' \<noteq> []"
    and "Getenv w ''BDFS_TOKEN_PATH'' \<noteq> []"
    and "Getenv w' = Getenv w"
  shows "GetBDFSConfig w' Unmarshal' = GetBDFSConfig w Unmarshal
       \<and> GetBDFSConfig w Unmarshal =
           Inr \<lparr>ClientID = Getenv w ''BDFS_CLIENT_ID'', ClientSecret = Getenv w ''BDFS_CLIENT_SECRET'',
                TokenPath = Getenv w ''BDFS_TOKEN_PATH'',
                DefaultCloudDir = (if Getenv w ''BDFS_DEFAULT_CLOUD_DIR'' = [] then ''/''
                                   else Getenv w ''BDFS_DEFAULT_CLOUD_DIR'')\<rparr>"
  using assms GetBDFSConfig_env [of w Unmarshal] GetBDFSConfig_env [of w' Unmarshal']
  by simp

text \<open>
  The environment names a configuration file. In one world the file is complete, with
  values of its own; in the other it cannot be read.
\<close>

theorem env_precedence_witness:
  "GetBDFSConfig
     \<lparr>Getenv = (\<lambda>_. [])(''BDFS_CLIENT_ID'' := ''id'', ''BDFS_CLIENT_SECRET'' := ''secret'',
         ''BDFS_TOKEN_PATH'' := ''/t/token'', ''BDFS_CONFIG_FILE'' := ''/etc/dkci.toml''),
      UserHomeDir = Inl ''no home'', ReadFile = (\<lambda>_. Inl ''no such file'')\<rparr>
     (\<lambda>_. Inl ''bad toml'')
   = GetBDFSConfig
     \<lparr>Getenv = (\<lambda>_. [])(''BDFS_CLIENT_ID'' := ''id'', ''BDFS_CLIENT_SECRET'' := ''secret'',
         ''BDFS_TOKEN_PATH'' := ''/t/token'', ''BDFS_CONFIG_FILE'' := ''/etc/dkci.toml''),
      UserHomeDir = Inr ''/home/u'', ReadFile = (\<lambda>_. Inr ''[other file]'')\<rparr>
     (\<lambda>_. Inr \<lparr>ClientID = ''other'', ClientSecret = ''other secret'', TokenPath = ''/o/token'',
               DefaultCloudDir = ''/images''\<rparr>)
   \<and> GetBDFSConfig
     \<lparr>Getenv = (\<lambda>_. [])(''BDFS_CLIENT_ID'' := ''id'', ''BDFS_CLIENT_SECRET'' := ''secret'',
         ''BDFS_TOKEN_PATH'' := ''/t/token'', ''BDFS_CONFIG_FILE'' := ''/etc/dkci.toml''),
      UserHomeDir = Inr ''/home/u'', ReadFile = (\<lambda>_. Inr ''[other file]'')\<rparr>
     (\<lambda>_. Inr \<lparr>ClientID = ''other'', ClientSecret = ''other secret'', TokenPath = ''/o/token'',
               DefaultCloudDir = ''/images''\<rparr>)
   = Inr \<lparr>ClientID = ''id'', ClientSecret = ''secret'', TokenPath = ''/t/token'', DefaultCloudDir = ''/''\<rparr>"
  using env_precedence [of
      "\<lparr>Getenv = (\<lambda>_. [])(''BDFS_CLIENT_ID'' := ''id'', ''BDFS_CLIENT_SECRET'' := ''secret'',
         ''BDFS_TOKEN_PATH'' := ''/t/token'', ''BDFS_CONFIG_FILE'' := ''/etc/dkci.toml''),
        UserHomeDir = Inr ''/home/u'', ReadFile = (\<lambda>_. Inr ''[other file]'')\<rparr>"
      "\<lparr>Getenv = (\<lambda>_. [])(''BDFS_CLIENT_ID'' := ''id'', ''BDFS_CLIENT_SECRET'' := ''secret'',
         ''BDFS_TOKEN_PATH'' := ''/t/token'', ''BDFS_CONFIG_FILE'' := ''/etc/dkci.toml''),
        UserHomeDir = Inl ''no home'', ReadFile = (\<lambda>_. Inl ''no such file'')\<rparr>"
      "\<lambda>_. Inl ''bad toml''"
      "\<lambda>_. Inr \<lparr>ClientID = ''other'', ClientSecret = ''other secret'', TokenPath = ''/o/token'',
               DefaultCloudDir = ''/images''\<rparr>"]
  by simp

text \<open>
  C6. When the environment is incomplete and the file decides: the result is the error of
  missing fields exactly when the file was found, read and parsed and the client id, the
  client secret or the token path of the parsed record is empty; and a record that is
  returned is the parsed one, with \<open>/\<close> for an empty default cloud directory.
\<close>

theorem file_incomplete_iff:
  assumes "\<not> (Getenv w ''BDFS_CLIENT_ID'' \<noteq> [] \<and> Getenv w ''BDFS_CLIENT_SECRET'' \<noteq> [] \<and>
    Getenv w ''BDFS_TOKEN_PATH'' \<noteq> [])"
  shows "(GetBDFSConfig w Unmarshal = Inl MissingFields \<longleftrightarrow>
           (\<exists>path data config. configFilePath w = Inr path \<and> ReadFile w path = Inr data \<and>
              Unmarshal data = Inr config \<and>
              (ClientID config = [] \<or> ClientSecret config = [] \<or> TokenPath config = [])))
       \<and> (\<forall>path data config c. configFilePath w = Inr path \<and> ReadFile w path = Inr data \<and>
              Unmarshal data = Inr config \<and> GetBDFSConfig w Unmarshal = Inr c \<longrightarrow>
              c = config\<lparr>DefaultCloudDir :=
                    (if DefaultCloudDir config = [] then ''/'' else DefaultCloudDir config)\<rparr>)"
  unfolding GetBDFSConfig_file [OF assms]
  using configFilePath_not_MissingFields [of w]
  by (auto split: sum.splits)

text \<open>
  Only the client id is in the environment. A file with the three fields and no default
  directory resolves with the directory \<open>/\<close>; a file without token path is incomplete.
\<close>

theorem file_incomplete_iff_witness:
  "GetBDFSConfig
     \<lparr>Getenv = (\<lambda>_. [])(''BDFS_CLIENT_ID'' := ''id''), UserHomeDir = Inr ''/home/u'',
      ReadFile = (\<lambda>_. Inl ''no such file'')(''/home/u/.local/app/dkci/config.toml'' := Inr ''complete'')\<rparr>
     (\<lambda>_. Inr \<lparr>ClientID = ''a'', ClientSecret = ''b'', TokenPath = ''/t'', DefaultCloudDir = []\<rparr>)
   = Inr \<lparr>ClientID = ''a'', ClientSecret = ''b'', TokenPath = ''/t'', DefaultCloudDir = ''/''\<rparr>
   \<and> GetBDFSConfig
     \<lparr>Getenv = (\<lambda>_. [])(''BDFS_CLIENT_ID'' := ''id''), UserHomeDir = Inr ''/home/u'',
      ReadFile = (\<lambda>_. Inl ''no such file'')(''/home/u/.local/app/dkci/config.toml'' := Inr ''no token'')\<rparr>
     (\<lambda>_. Inr \<lparr>ClientID = ''a'', ClientSecret = ''b'', TokenPath = [], DefaultCloudDir = ''/x''\<rparr>)
   = Inl MissingFields"
proof -
  have path: "filepath_Join [''/home/u'', ''.local'', ''app'', ''dkci'', ''config.toml''] =
      ''/home/u/.local/app/dkci/config.toml''"
    by code_simp
  have ok: "GetBDFSConfig
     \<lparr>Getenv = (\<lambda>_. [])(''BDFS_CLIENT_ID'' := ''id''), UserHomeDir = Inr ''/home/u'',
      ReadFile = (\<lambda>_. Inl ''no such file'')(''/home/u/.local/app/dkci/config.toml'' := Inr ''complete'')\<rparr>
     (\<lambda>_. Inr \<lparr>ClientID = ''a'', ClientSecret = ''b'', TokenPath = ''/t'', DefaultCloudDir = []\<rparr>)
   = Inr \<lparr>ClientID = ''a'', ClientSecret = ''b'', TokenPath = ''/t'', DefaultCloudDir = ''/''\<rparr>"
    by (simp add: GetBDFSConfig_def configFilePath_def path)
  show ?thesis
    using file_incomplete_iff [of
        "\<lparr>Getenv = (\<lambda>_. [])(''BDFS_CLIENT_ID'' := ''id''), UserHomeDir = Inr ''/home/u'',
          ReadFile = (\<lambda>_. Inl ''no such file'')(''/home/u/.local/app/dkci/config.toml'' := Inr ''no token'')\<rparr>"
        "\<lambda>_. Inr \<lparr>ClientID = ''a'', ClientSecret = ''b'', TokenPath = [], DefaultCloudDir = ''/x''\<rparr>"]
      file_incomplete_iff [of
        "\<lparr>Getenv = (\<lambda>_. [])(''BDFS_CLIENT_ID'' := ''id''), UserHomeDir = Inr ''/home/u'',
          ReadFile = (\<lambda>_. Inl ''no such file'')(''/home/u/.local/app/dkci/config.toml'' := Inr ''complete'')\<rparr>"
        "\<lambda>_. Inr \<lparr>ClientID = ''a'', ClientSecret = ''b'', TokenPath = ''/t'', DefaultCloudDir = []\<rparr>"]
      ok
    by (simp add: configFilePath_def path)
qed

section \<open>Properties of the loops\<close>

text \<open>No path through the three per-image procedures ends the process.\<close>

lemma ExportImage_returns: "fst (ExportImage cli fs imageName destination s) = Returned"
  by (simp add: ExportImage_def Let_def split: prod.splits sum.splits)

lemma DeleteImage_returns: "fst (DeleteImage cli imageName s) = Returned"
  by (simp add: DeleteImage_def Let_def split: prod.splits sum.splits)

lemma ExportImageToCloud_returns: "fst (ExportImageToCloud cli fs bdfsClient imageName cloudPath s) = Returned"
  by (simp add: ExportImageToCloud_def Let_def split: prod.splits sum.splits)

lemma forEach_append:
  "forEach body (xs @ ys) s =
     (case forEach body xs s of
        (Exited code, out, s') \<Rightarrow> (Exited code, out, s')
      | (Returned, out, s') \<Rightarrow>
          (case forEach body ys s' of (r, out', s'') \<Rightarrow> (r, out @ out', s'')))"
  by (induction xs arbitrary: s) (auto split: prod.splits outcome.splits)

lemma forEach_returns:
  assumes "\<And>x s. fst (body x s) = Returned"
  shows "fst (forEach body xs s) = Returned"
proof (induction xs arbitrary: s)
  case Nil
  then show ?case by simp
next
  case (Cons x xs)
  obtain out s' where 1: "body x s = (Returned, out, s')"
    using assms [of x s] by (cases "body x s") auto
  obtain r out' s'' where 2: "forEach body xs s' = (r, out', s'')"
    by (cases "forEach body xs s'") auto
  from Cons.IH [of s'] 2 have "r = Returned" by simp
  with 1 2 show ?case by simp
qed

lemma forEach_continues:
  assumes "\<And>x s. fst (body x s) = Returned"
  shows "forEach body (pre @ x # post) s =
     (case forEach body pre s of (r1, out1, s1) \<Rightarrow>
      case body x s1 of (r2, out2, s2) \<Rightarrow>
      case forEach body post s2 of (r3, out3, s3) \<Rightarrow> (Returned, out1 @ out2 @ out3, s3))"
proof -
  obtain r1 out1 s1 where 1: "forEach body pre s = (r1, out1, s1)" by (cases "forEach body pre s") auto
  obtain r2 out2 s2 where 2: "body x s1 = (r2, out2, s2)" by (cases "body x s1") auto
  obtain r3 out3 s3 where 3: "forEach body post s2 = (r3, out3, s3)" by (cases "forEach body post s2") auto
  have "r1 = Returned" using forEach_returns [of body pre s, OF assms] 1 by simp
  moreover have "r2 = Returned" using assms [of x s1] 2 by simp
  moreover have "r3 = Returned" using forEach_returns [of body post s2, OF assms] 3 by simp
  ultimately show ?thesis
    by (simp add: forEach_append 1 2 3)
qed

lemma forEach_exits:
  assumes "forEach body pre s = (Returned, out1, s1)" and "body x s1 = (Exited code, out2, s2)"
  shows "forEach body (pre @ x # post) s = (Exited code, out1 @ out2, s2)"
  using assms by (simp add: forEach_append)

lemma forEach_exit_code:
  assumes "\<And>x s c. fst (body x s) = Exited c \<Longrightarrow> c = k"
  shows "fst (forEach body xs s) = Exited c \<Longrightarrow> c = k"
proof (induction xs arbitrary: s)
  case Nil
  then show ?case by simp
next
  case (Cons x xs)
  show ?case
  proof (cases "body x s")
    case (fields r out s')
    show ?thesis
    proof (cases r)
      case Returned
      with fields Cons.prems have "fst (forEach body xs s') = Exited c"
        by (auto split: prod.splits)
      then show ?thesis by (rule Cons.IH)
    next
      case (Exited c')
      with fields Cons.prems have "c' = c" by simp
      moreover have "c' = k" using assms [of x s c'] fields Exited by simp
      ultimately show ?thesis by simp
    qed
  qed
qed

lemma importFromFile_exit_code: "fst (importFromFile cli fs filePath s) = Exited c \<Longrightarrow> c = 1"
  by (auto simp add: importFromFile_def Let_def split: prod.splits sum.splits if_splits)


lemma importFromFile_exit_code': "importFromFile cli fs filePath s = (Exited c, out, s') \<Longrightarrow> c = 1"
  using importFromFile_exit_code [of cli fs filePath s c] by simp

lemma ImportImagesFromSource_exit_code:
  "ImportImagesFromSource cli fs AskOne source grepPattern s = (Exited c, out, s') \<Longrightarrow> c = 1"
proof -
  have loop: "forEach (\<lambda>filePath. importFromFile cli fs filePath) xs t = (Exited c, out, s') \<Longrightarrow> c = 1" for xs t
    using forEach_exit_code [of "\<lambda>filePath. importFromFile cli fs filePath" 1 xs t c]
      importFromFile_exit_code [of cli fs]
    by simp
  have dir: "importFromDirectory cli fs AskOne d g t = (Exited c, out, s') \<Longrightarrow> c = 1" for d g t
    using loop
    by (auto simp add: importFromDirectory_def Let_def split: prod.splits sum.splits if_splits)
  show "ImportImagesFromSource cli fs AskOne source grepPattern s = (Exited c, out, s') \<Longrightarrow> c = 1"
    using dir importFromFile_exit_code'
    by (auto simp add: ImportImagesFromSource_def split: prod.splits sum.splits if_splits)
qed

lemma downloadAndImportFromCloud_exit_code:
  "downloadAndImportFromCloud cli fs bdfsClient AskOne cloudFilePath s = (Exited c, out, s') \<Longrightarrow> c = 1"
  by (auto simp add: downloadAndImportFromCloud_def Let_def split: prod.splits sum.splits outcome.splits
      dest: ImportImagesFromSource_exit_code)


text \<open>
  Each path through the three per-image procedures, with the lines it prints: the warning
  of an image that could not be inspected (the file name then has \<open>unknown\<close> for the OS
  and the architecture), the line that announces the step, and the line of the failure
  or of the success.
\<close>

lemma ExportImage_save_fails:
  "(ImageInspectWithRaw cli imageName s = (inspected, sa) \<and>
      (warning, osInfo, archInfo) =
        (case inspected of
           Inl ierr \<Rightarrow> ([''Warning: Could not inspect image '' @ imageName @ '': '' @ ierr], [], [])
         | Inr imageInspect \<Rightarrow> ([], Os imageInspect, Architecture imageInspect)) \<and>
      tarFilePath = filepath_Join [destination, tarFileName imageName osInfo archInfo] \<and>
      ImageSave cli [imageName] sa = (Inl err, sb) \<longrightarrow>
      ExportImage cli fs imageName destination s =
        (Returned, warning @ [''Exporting image '' @ imageName @ '' to '' @ tarFilePath @ ''...'',
           ''[x] Failed to export image '' @ imageName @ '': '' @ err], sb))"
  by (cases inspected) (clarsimp simp add: ExportImage_def Let_def)+

lemma ExportImage_create_fails:
  "(ImageInspectWithRaw cli imageName s = (inspected, sa) \<and>
      (warning, osInfo, archInfo) =
        (case inspected of
           Inl ierr \<Rightarrow> ([''Warning: Could not inspect image '' @ imageName @ '': '' @ ierr], [], [])
         | Inr imageInspect \<Rightarrow> ([], Os imageInspect, Architecture imageInspect)) \<and>
      tarFilePath = filepath_Join [destination, tarFileName imageName osInfo archInfo] \<and>
      ImageSave cli [imageName] sa = (Inr imageReader, sb) \<and>
      os_Create fs tarFilePath sb = (Inl err, sc) \<longrightarrow>
      ExportImage cli fs imageName destination s =
        (Returned, warning @ [''Exporting image '' @ imageName @ '' to '' @ tarFilePath @ ''...'',
           ''[x] Failed to create output file '' @ tarFilePath @ '': '' @ err], sc))"
  by (cases inspected) (clarsimp simp add: ExportImage_def Let_def)+

lemma ExportImage_copy_fails:
  "(ImageInspectWithRaw cli imageName s = (inspected, sa) \<and>
      (warning, osInfo, archInfo) =
        (case inspected of
           Inl ierr \<Rightarrow> ([''Warning: Could not inspect image '' @ imageName @ '': '' @ ierr], [], [])
         | Inr imageInspect \<Rightarrow> ([], Os imageInspect, Architecture imageInspect)) \<and>
      tarFilePath = filepath_Join [destination, tarFileName imageName osInfo archInfo] \<and>
      ImageSave cli [imageName] sa = (Inr imageReader, sb) \<and>
      os_Create fs tarFilePath sb = (Inr outFile, sc) \<and>
      io_Copy fs outFile imageReader sc = (Inl err, sd) \<longrightarrow>
      ExportImage cli fs imageName destination s =
        (Returned, warning @ [''Exporting image '' @ imageName @ '' to '' @ tarFilePath @ ''...'',
           ''[x] Failed to write image '' @ imageName @ '' to file '' @ tarFilePath @ '': '' @ err], sd))"
  by (cases inspected) (clarsimp simp add: ExportImage_def Let_def)+

lemma ExportImage_succeeds:
  "(ImageInspectWithRaw cli imageName s = (inspected, sa) \<and>
      (warning, osInfo, archInfo) =
        (case inspected of
           Inl ierr \<Rightarrow> ([''Warning: Could not inspect image '' @ imageName @ '': '' @ ierr], [], [])
         | Inr imageInspect \<Rightarrow> ([], Os imageInspect, Architecture imageInspect)) \<and>
      tarFilePath = filepath_Join [destination, tarFileName imageName osInfo archInfo] \<and>
      ImageSave cli [imageName] sa = (Inr imageReader, sb) \<and>
      os_Create fs tarFilePath sb = (Inr outFile, sc) \<and>
      io_Copy fs outFile imageReader sc = (Inr u, sd) \<longrightarrow>
      ExportImage cli fs imageName destination s =
        (Returned, warning @ [''Exporting image '' @ imageName @ '' to '' @ tarFilePath @ ''...'',
           ''['' @ check_mark @ ''] Successfully exported image '' @ imageName @ '' to '' @ tarFilePath], sd))"
  by (cases inspected) (clarsimp simp add: ExportImage_def Let_def)+

lemma DeleteImage_remove_fails:
  "(ImageRemove cli imageName s = (Inl err, sa) \<longrightarrow>
      DeleteImage cli imageName s =
        (Returned, [''Deleting image '' @ imageName @ ''...'',
           ''[x] Failed to delete image '' @ imageName @ '': '' @ err], sa))"
  by (simp add: DeleteImage_def)

lemma DeleteImage_succeeds:
  "(ImageRemove cli imageName s = (Inr u, sa) \<longrightarrow>
      DeleteImage cli imageName s =
        (Returned, [''Deleting image '' @ imageName @ ''...'',
           ''['' @ check_mark @ ''] Successfully deleted image '' @ imageName], sa))"
  by (simp add: DeleteImage_def)

lemma ExportImageToCloud_mkdir_fails:
  "(ImageInspectWithRaw cli imageName s = (inspected, sa) \<and>
      (warning, osInfo, archInfo) =
        (case inspected of
           Inl ierr \<Rightarrow> ([''Warning: Could not inspect image '' @ imageName @ '': '' @ ierr], [], [])
         | Inr imageInspect \<Rightarrow> ([], Os imageInspect, Architecture imageInspect)) \<and>
      tempFilePath = filepath_Join [''/tmp/go-dkci'', tarFileName imageName osInfo archInfo] \<and>
      remoteFilePath = filepath_Join [cloudPath, tarFileName imageName osInfo archInfo] \<and>
      os_MkdirAll fs ''/tmp/go-dkci'' sa = (Inl err, sb) \<longrightarrow>
      ExportImageToCloud cli fs bdfsClient imageName cloudPath s =
        (Returned, warning @ [''[x] Failed to create temp directory /tmp/go-dkci: '' @ err], sb))"
  by (cases inspected) (clarsimp simp add: ExportImageToCloud_def Let_def)+

lemma ExportImageToCloud_save_fails:
  "(ImageInspectWithRaw cli imageName s = (inspected, sa) \<and>
      (warning, osInfo, archInfo) =
        (case inspected of
           Inl ierr \<Rightarrow> ([''Warning: Could not inspect image '' @ imageName @ '': '' @ ierr], [], [])
         | Inr imageInspect \<Rightarrow> ([], Os imageInspect, Architecture imageInspect)) \<and>
      tempFilePath = filepath_Join [''/tmp/go-dkci'', tarFileName imageName osInfo archInfo] \<and>
      remoteFilePath = filepath_Join [cloudPath, tarFileName imageName osInfo archInfo] \<and>
      os_MkdirAll fs ''/tmp/go-dkci'' sa = (Inr u, sb) \<and>
      ImageSave cli [imageName] sb = (Inl err, sc) \<longrightarrow>
      ExportImageToCloud cli fs bdfsClient imageName cloudPath s =
        (Returned, warning @ [''Exporting image '' @ imageName @ '' to temporary file '' @ tempFilePath @ ''...'',
           ''[x] Failed to export image '' @ imageName @ '': '' @ err], sc))"
  by (cases inspected) (clarsimp simp add: ExportImageToCloud_def Let_def)+

lemma ExportImageToCloud_create_fails:
  "(ImageInspectWithRaw cli imageName s = (inspected, sa) \<and>
      (warning, osInfo, archInfo) =
        (case inspected of
           Inl ierr \<Rightarrow> ([''Warning: Could not inspect image '' @ imageName @ '': '' @ ierr], [], [])
         | Inr imageInspect \<Rightarrow> ([], Os imageInspect, Architecture imageInspect)) \<and>
      tempFilePath = filepath_Join [''/tmp/go-dkci'', tarFileName imageName osInfo archInfo] \<and>
      remoteFilePath = filepath_Join [cloudPath, tarFileName imageName osInfo archInfo] \<and>
      os_MkdirAll fs ''/tmp/go-dkci'' sa = (Inr u, sb) \<and>
      ImageSave cli [imageName] sb = (Inr imageReader, sc) \<and>
      os_Create fs tempFilePath sc = (Inl err, sd) \<longrightarrow>
      ExportImageToCloud cli fs bdfsClient imageName cloudPath s =
        (Returned, warning @ [''Exporting image '' @ imageName @ '' to temporary file '' @ tempFilePath @ ''...'',
           ''[x] Failed to create temporary file '' @ tempFilePath @ '': '' @ err], sd))"
  by (cases inspected) (clarsimp simp add: ExportImageToCloud_def Let_def)+

lemma ExportImageToCloud_copy_fails:
  "(ImageInspectWithRaw cli imageName s = (inspected, sa) \<and>
      (warning, osInfo, archInfo) =
        (case inspected of
           Inl ierr \<Rightarrow> ([''Warning: Could not inspect image '' @ imageName @ '': '' @ ierr], [], [])
         | Inr imageInspect \<Rightarrow> ([], Os imageInspect, Architecture imageInspect)) \<and>
      tempFilePath = filepath_Join [''/tmp/go-dkci'', tarFileName imageName osInfo archInfo] \<and>
      remoteFilePath = filepath_Join [cloudPath, tarFileName imageName osInfo archInfo] \<and>
      os_MkdirAll fs ''/tmp/go-dkci'' sa = (Inr u, sb) \<and>
      ImageSave cli [imageName] sb = (Inr imageReader, sc) \<and>
      os_Create fs tempFilePath sc = (Inr outFile, sd) \<and>
      io_Copy fs outFile imageReader sd = (Inl err, se) \<longrightarrow>
      ExportImageToCloud cli fs bdfsClient imageName cloudPath s =
        (Returned, warning @ [''Exporting image '' @ imageName @ '' to temporary file '' @ tempFilePath @ ''...'',
           ''[x] Failed to write image '' @ imageName @ '' to temporary file '' @ tempFilePath @ '': '' @ err], se))"
  by (cases inspected) (clarsimp simp add: ExportImageToCloud_def Let_def)+

lemma ExportImageToCloud_upload_fails:
  "(ImageInspectWithRaw cli imageName s = (inspected, sa) \<and>
      (warning, osInfo, archInfo) =
        (case inspected of
           Inl ierr \<Rightarrow> ([''Warning: Could not inspect image '' @ imageName @ '': '' @ ierr], [], [])
         | Inr imageInspect \<Rightarrow> ([], Os imageInspect, Architecture imageInspect)) \<and>
      tempFilePath = filepath_Join [''/tmp/go-dkci'', tarFileName imageName osInfo archInfo] \<and>
      remoteFilePath = filepath_Join [cloudPath, tarFileName imageName osInfo archInfo] \<and>
      os_MkdirAll fs ''/tmp/go-dkci'' sa = (Inr u, sb) \<and>
      ImageSave cli [imageName] sb = (Inr imageReader, sc) \<and>
      os_Create fs tempFilePath sc = (Inr outFile, sd) \<and>
      io_Copy fs outFile imageReader sd = (Inr u, se) \<and>
      UploadFile bdfsClient tempFilePath remoteFilePath se = (Inl err, sf) \<and>
      os_Remove fs tempFilePath sf = (removed, sg) \<longrightarrow>
      ExportImageToCloud cli fs bdfsClient imageName cloudPath s =
        (Returned, warning @ [''Exporting image '' @ imageName @ '' to temporary file '' @ tempFilePath @ ''...'',
           ''Uploading '' @ tempFilePath @ '' to Baidu cloud path '' @ remoteFilePath @ ''...'',
           ''[x] Failed to upload '' @ tempFilePath @ '' to Baidu cloud: '' @ err], sg))"
  by (cases inspected) (clarsimp simp add: ExportImageToCloud_def Let_def)+

lemma ExportImageToCloud_succeeds:
  "(ImageInspectWithRaw cli imageName s = (inspected, sa) \<and>
      (warning, osInfo, archInfo) =
        (case inspected of
           Inl ierr \<Rightarrow> ([''Warning: Could not inspect image '' @ imageName @ '': '' @ ierr], [], [])
         | Inr imageInspect \<Rightarrow> ([], Os imageInspect, Architecture imageInspect)) \<and>
      tempFilePath = filepath_Join [''/tmp/go-dkci'', tarFileName imageName osInfo archInfo] \<and>
      remoteFilePath = filepath_Join [cloudPath, tarFileName imageName osInfo archInfo] \<and>
      os_MkdirAll fs ''/tmp/go-dkci'' sa = (Inr u, sb) \<and>
      ImageSave cli [imageName] sb = (Inr imageReader, sc) \<and>
      os_Create fs tempFilePath sc = (Inr outFile, sd) \<and>
      io_Copy fs outFile imageReader sd = (Inr u, se) \<and>
      UploadFile bdfsClient tempFilePath remoteFilePath se = (Inr u, sf) \<and>
      os_Remove fs tempFilePath sf = (removed, sg) \<longrightarrow>
      ExportImageToCloud cli fs bdfsClient imageName cloudPath s =
        (Returned, warning @ [''Exporting image '' @ imageName @ '' to temporary file '' @ tempFilePath @ ''...'',
           ''Uploading '' @ tempFilePath @ '' to Baidu cloud path '' @ remoteFilePath @ ''...''] @
           (case removed of
              Inl rerr \<Rightarrow> [''Warning: Failed to remove temporary file '' @ tempFilePath @ '': '' @ rerr]
            | Inr _ \<Rightarrow> []) @
           [''['' @ check_mark @ ''] Successfully exported and uploaded image '' @ imageName @
              '' to '' @ remoteFilePath], sg))"
  by (cases inspected) (clarsimp simp add: ExportImageToCloud_def Let_def)+

lemma ExportImages_loop_continues:
  "ExportImages_loop cli fs destination (pre @ imageName # post) s =
       (case ExportImages_loop cli fs destination pre s of (r1, out1, s1) \<Rightarrow>
        case ExportImage cli fs imageName destination s1 of (r2, out2, s2) \<Rightarrow>
        case ExportImages_loop cli fs destination post s2 of (r3, out3, s3) \<Rightarrow>
          (Returned, out1 @ out2 @ out3, s3))"
  unfolding ExportImages_loop_def
  by (rule forEach_continues) (rule ExportImage_returns)

lemma ExportImagesToCloud_loop_continues:
  "ExportImagesToCloud_loop cli fs bdfsClient cloudPath (pre @ imageName # post) s =
       (case ExportImagesToCloud_loop cli fs bdfsClient cloudPath pre s of (r1, out1, s1) \<Rightarrow>
        case ExportImageToCloud cli fs bdfsClient imageName cloudPath s1 of (r2, out2, s2) \<Rightarrow>
        case ExportImagesToCloud_loop cli fs bdfsClient cloudPath post s2 of (r3, out3, s3) \<Rightarrow>
          (Returned, out1 @ out2 @ out3, s3))"
  unfolding ExportImagesToCloud_loop_def
  by (rule forEach_continues) (rule ExportImageToCloud_returns)

lemma DeleteImages_loop_continues:
  "DeleteImages_loop cli (pre @ imageName # post) s =
       (case DeleteImages_loop cli pre s of (r1, out1, s1) \<Rightarrow>
        case DeleteImage cli imageName s1 of (r2, out2, s2) \<Rightarrow>
        case DeleteImages_loop cli post s2 of (r3, out3, s3) \<Rightarrow>
          (Returned, out1 @ out2 @ out3, s3))"
  unfolding DeleteImages_loop_def
  by (rule forEach_continues) (rule DeleteImage_returns)

text \<open>
  C8. Export (local and to the cloud) and delete return to their caller whatever the
  daemon, the file system and the cloud answer. So the loop over the selected images goes
  on after every image: its run over a selection is the run over the images before, then
  the call for the image, then the run over the images after it, from the state that call
  left, and it returns. Every failure of an item is reported by a line of its own, which
  names the image or the file and carries the error, and is the last line the call
  prints: for the local export a failed save, a failed creation of the output file and a
  failed write; for delete a failed removal; for the export to the cloud a failed
  creation of the temporary directory, a failed save, a failed creation of the temporary
  file, a failed write and a failed upload (the temporary file is then removed). An item
  that succeeds prints its line of success; after an upload a temporary file that cannot
  be removed costs a warning.
\<close>

theorem export_delete_continue:
  "fst (ExportImage cli fs imageName destination s) = Returned
   \<and> fst (ExportImageToCloud cli fs bdfsClient imageName cloudPath s) = Returned
   \<and> fst (DeleteImage cli imageName s) = Returned
   \<and> ExportImages_loop cli fs destination (pre @ imageName # post) s =
       (case ExportImages_loop cli fs destination pre s of (r1, out1, s1) \<Rightarrow>
        case ExportImage cli fs imageName destination s1 of (r2, out2, s2) \<Rightarrow>
        case ExportImages_loop cli fs destination post s2 of (r3, out3, s3) \<Rightarrow>
          (Returned, out1 @ out2 @ out3, s3))
   \<and> ExportImagesToCloud_loop cli fs bdfsClient cloudPath (pre @ imageName # post) s =
       (case ExportImagesToCloud_loop cli fs bdfsClient cloudPath pre s of (r1, out1, s1) \<Rightarrow>
        case ExportImageToCloud cli fs bdfsClient imageName cloudPath s1 of (r2, out2, s2) \<Rightarrow>
        case ExportImagesToCloud_loop cli fs bdfsClient cloudPath post s2 of (r3, out3, s3) \<Rightarrow>
          (Returned, out1 @ out2 @ out3, s3))
   \<and> DeleteImages_loop cli (pre @ imageName # post) s =
       (case DeleteImages_loop cli pre s of (r1, out1, s1) \<Rightarrow>
        case DeleteImage cli imageName s1 of (r2, out2, s2) \<Rightarrow>
        case DeleteImages_loop cli post s2 of (r3, out3, s3) \<Rightarrow>
          (Returned, out1 @ out2 @ out3, s3))
   \<and> (ImageInspectWithRaw cli imageName s = (inspected, sa) \<and>
      (warning, osInfo, archInfo) =
        (case inspected of
           Inl ierr \<Rightarrow> ([''Warning: Could not inspect image '' @ imageName @ '': '' @ ierr], [], [])
         | Inr imageInspect \<Rightarrow> ([], Os imageInspect, Architecture imageInspect)) \<and>
      tarFilePath = filepath_Join [destination, tarFileName imageName osInfo archInfo] \<and>
      ImageSave cli [imageName] sa = (Inl err, sb) \<longrightarrow>
      ExportImage cli fs imageName destination s =
        (Returned, warning @ [''Exporting image '' @ imageName @ '' to '' @ tarFilePath @ ''...'',
           ''[x] Failed to export image '' @ imageName @ '': '' @ err], sb))
   \<and> (ImageInspectWithRaw cli imageName s = (inspected, sa) \<and>
      (warning, osInfo, archInfo) =
        (case inspected of
           Inl ierr \<Rightarrow> ([''Warning: Could not inspect image '' @ imageName @ '': '' @ ierr], [], [])
         | Inr imageInspect \<Rightarrow> ([], Os imageInspect, Architecture imageInspect)) \<and>
      tarFilePath = filepath_Join [destination, tarFileName imageName osInfo archInfo] \<and>
      ImageSave cli [imageName] sa = (Inr imageReader, sb) \<and>
      os_Create fs tarFilePath sb = (Inl err, sc) \<longrightarrow>
      ExportImage cli fs imageName destination s =
        (Returned, warning @ [''Exporting image '' @ imageName @ '' to '' @ tarFilePath @ ''...'',
           ''[x] Failed to create output file '' @ tarFilePath @ '': '' @ err], sc))
   \<and> (ImageInspectWithRaw cli imageName s = (inspected, sa) \<and>
      (warning, osInfo, archInfo) =
        (case inspected of
           Inl ierr \<Rightarrow> ([''Warning: Could not inspect image '' @ imageName @ '': '' @ ierr], [], [])
         | Inr imageInspect \<Rightarrow> ([], Os imageInspect, Architecture imageInspect)) \<and>
      tarFilePath = filepath_Join [destination, tarFileName imageName osInfo archInfo] \<and>
      ImageSave cli [imageName] sa = (Inr imageReader, sb) \<and>
      os_Create fs tarFilePath sb = (Inr outFile, sc) \<and>
      io_Copy fs outFile imageReader sc = (Inl err, sd) \<longrightarrow>
      ExportImage cli fs imageName destination s =
        (Returned, warning @ [''Exporting image '' @ imageName @ '' to '' @ tarFilePath @ ''...'',
           ''[x] Failed to write image '' @ imageName @ '' to file '' @ tarFilePath @ '': '' @ err], sd))
   \<and> (ImageInspectWithRaw cli imageName s = (inspected, sa) \<and>
      (warning, osInfo, archInfo) =
        (case inspected of
           Inl ierr \<Rightarrow> ([''Warning: Could not inspect image '' @ imageName @ '': '' @ ierr], [], [])
         | Inr imageInspect \<Rightarrow> ([], Os imageInspect, Architecture imageInspect)) \<and>
      tarFilePath = filepath_Join [destination, tarFileName imageName osInfo archInfo] \<and>
      ImageSave cli [imageName] sa = (Inr imageReader, sb) \<and>
      os_Create fs tarFilePath sb = (Inr outFile, sc) \<and>
      io_Copy fs outFile imageReader sc = (Inr u, sd) \<longrightarrow>
      ExportImage cli fs imageName destination s =
        (Returned, warning @ [''Exporting image '' @ imageName @ '' to '' @ tarFilePath @ ''...'',
           ''['' @ check_mark @ ''] Successfully exported image '' @ imageName @ '' to '' @ tarFilePath], sd))
   \<and> (ImageRemove cli imageName s = (Inl err, sa) \<longrightarrow>
      DeleteImage cli imageName s =
        (Returned, [''Deleting image '' @ imageName @ ''...'',
           ''[x] Failed to delete image '' @ imageName @ '': '' @ err], sa))
   \<and> (ImageRemove cli imageName s = (Inr u, sa) \<longrightarrow>
      DeleteImage cli imageName s =
        (Returned, [''Deleting image '' @ imageName @ ''...'',
           ''['' @ check_mark @ ''] Successfully deleted image '' @ imageName], sa))
   \<and> (ImageInspectWithRaw cli imageName s = (inspected, sa) \<and>
      (warning, osInfo, archInfo) =
        (case inspected of
           Inl ierr \<Rightarrow> ([''Warning: Could not inspect image '' @ imageName @ '': '' @ ierr], [], [])
         | Inr imageInspect \<Rightarrow> ([], Os imageInspect, Architecture imageInspect)) \<and>
      tempFilePath = filepath_Join [''/tmp/go-dkci'', tarFileName imageName osInfo archInfo] \<and>
      remoteFilePath = filepath_Join [cloudPath, tarFileName imageName osInfo archInfo] \<and>
      os_MkdirAll fs ''/tmp/go-dkci'' sa = (Inl err, sb) \<longrightarrow>
      ExportImageToCloud cli fs bdfsClient imageName cloudPath s =
        (Returned, warning @ [''[x] Failed to create temp directory /tmp/go-dkci: '' @ err], sb))
   \<and> (ImageInspectWithRaw cli imageName s = (inspected, sa) \<and>
      (warning, osInfo, archInfo) =
        (case inspected of
           Inl ierr \<Rightarrow> ([''Warning: Could not inspect image '' @ imageName @ '': '' @ ierr], [], [])
         | Inr imageInspect \<Rightarrow> ([], Os imageInspect, Architecture imageInspect)) \<and>
      tempFilePath = filepath_Join [''/tmp/go-dkci'', tarFileName imageName osInfo archInfo] \<and>
      remoteFilePath = filepath_Join [cloudPath, tarFileName imageName osInfo archInfo] \<and>
      os_MkdirAll fs ''/tmp/go-dkci'' sa = (Inr u, sb) \<and>
      ImageSave cli [imageName] sb = (Inl err, sc) \<longrightarrow>
      ExportImageToCloud cli fs bdfsClient imageName cloudPath s =
        (Returned, warning @ [''Exporting image '' @ imageName @ '' to temporary file '' @ tempFilePath @ ''...'',
           ''[x] Failed to export image '' @ imageName @ '': '' @ err], sc))
   \<and> (ImageInspectWithRaw cli imageName s = (inspected, sa) \<and>
      (warning, osInfo, archInfo) =
        (case inspected of
           Inl ierr \<Rightarrow> ([''Warning: Could not inspect image '' @ imageName @ '': '' @ ierr], [], [])
         | Inr imageInspect \<Rightarrow> ([], Os imageInspect, Architecture imageInspect)) \<and>
      tempFilePath = filepath_Join [''/tmp/go-dkci'', tarFileName imageName osInfo archInfo] \<and>
      remoteFilePath = filepath_Join [cloudPath, tarFileName imageName osInfo archInfo] \<and>
      os_MkdirAll fs ''/tmp/go-dkci'' sa = (Inr u, sb) \<and>
      ImageSave cli [imageName] sb = (Inr imageReader, sc) \<and>
      os_Create fs tempFilePath sc = (Inl err, sd) \<longrightarrow>
      ExportImageToCloud cli fs bdfsClient imageName cloudPath s =
        (Returned, warning @ [''Exporting image '' @ imageName @ '' to temporary file '' @ tempFilePath @ ''...'',
           ''[x] Failed to create temporary file '' @ tempFilePath @ '': '' @ err], sd))
   \<and> (ImageInspectWithRaw cli imageName s = (inspected, sa) \<and>
      (warning, osInfo, archInfo) =
        (case inspected of
           Inl ierr \<Rightarrow> ([''Warning: Could not inspect image '' @ imageName @ '': '' @ ierr], [], [])
         | Inr imageInspect \<Rightarrow> ([], Os imageInspect, Architecture imageInspect)) \<and>
      tempFilePath = filepath_Join [''/tmp/go-dkci'', tarFileName imageName osInfo archInfo] \<and>
      remoteFilePath = filepath_Join [cloudPath, tarFileName imageName osInfo archInfo] \<and>
      os_MkdirAll fs ''/tmp/go-dkci'' sa = (Inr u, sb) \<and>
      ImageSave cli [imageName] sb = (Inr imageReader, sc) \<and>
      os_Create fs tempFilePath sc = (Inr outFile, sd) \<and>
      io_Copy fs outFile imageReader sd = (Inl err, se) \<longrightarrow>
      ExportImageToCloud cli fs bdfsClient imageName cloudPath s =
        (Returned, warning @ [''Exporting image '' @ imageName @ '' to temporary file '' @ tempFilePath @ ''...'',
           ''[x] Failed to write image '' @ imageName @ '' to temporary file '' @ tempFilePath @ '': '' @ err], se))
   \<and> (ImageInspectWithRaw cli imageName s = (inspected, sa) \<and>
      (warning, osInfo, archInfo) =
        (case inspected of
           Inl ierr \<Rightarrow> ([''Warning: Could not inspect image '' @ imageName @ '': '' @ ierr], [], [])
         | Inr imageInspect \<Rightarrow> ([], Os imageInspect, Architecture imageInspect)) \<and>
      tempFilePath = filepath_Join [''/tmp/go-dkci'', tarFileName imageName osInfo archInfo] \<and>
      remoteFilePath = filepath_Join [cloudPath, tarFileName imageName osInfo archInfo] \<and>
      os_MkdirAll fs ''/tmp/go-dkci'' sa = (Inr u, sb) \<and>
      ImageSave cli [imageName] sb = (Inr imageReader, sc) \<and>
      os_Create fs tempFilePath sc = (Inr outFile, sd) \<and>
      io_Copy fs outFile imageReader sd = (Inr u, se) \<and>
      UploadFile bdfsClient tempFilePath remoteFilePath se = (Inl err, sf) \<and>
      os_Remove fs tempFilePath sf = (removed, sg) \<longrightarrow>
      ExportImageToCloud cli fs bdfsClient imageName cloudPath s =
        (Returned, warning @ [''Exporting image '' @ imageName @ '' to temporary file '' @ tempFilePath @ ''...'',
           ''Uploading '' @ tempFilePath @ '' to Baidu cloud path '' @ remoteFilePath @ ''...'',
           ''[x] Failed to upload '' @ tempFilePath @ '' to Baidu cloud: '' @ err], sg))
   \<and> (ImageInspectWithRaw cli imageName s = (inspected, sa) \<and>
      (warning, osInfo, archInfo) =
        (case inspected of
           Inl ierr \<Rightarrow> ([''Warning: Could not inspect image '' @ imageName @ '': '' @ ierr], [], [])
         | Inr imageInspect \<Rightarrow> ([], Os imageInspect, Architecture imageInspect)) \<and>
      tempFilePath = filepath_Join [''/tmp/go-dkci'', tarFileName imageName osInfo archInfo] \<and>
      remoteFilePath = filepath_Join [cloudPath, tarFileName imageName osInfo archInfo] \<and>
      os_MkdirAll fs ''/tmp/go-dkci'' sa = (Inr u, sb) \<and>
      ImageSave cli [imageName] sb = (Inr imageReader, sc) \<and>
      os_Create fs tempFilePath sc = (Inr outFile, sd) \<and>
      io_Copy fs outFile imageReader sd = (Inr u, se) \<and>
      UploadFile bdfsClient tempFilePath remoteFilePath se = (Inr u, sf) \<and>
      os_Remove fs tempFilePath sf = (removed, sg) \<longrightarrow>
      ExportImageToCloud cli fs bdfsClient imageName cloudPath s =
        (Returned, warning @ [''Exporting image '' @ imageName @ '' to temporary file '' @ tempFilePath @ ''...'',
           ''Uploading '' @ tempFilePath @ '' to Baidu cloud path '' @ remoteFilePath @ ''...''] @
           (case removed of
              Inl rerr \<Rightarrow> [''Warning: Failed to remove temporary file '' @ tempFilePath @ '': '' @ rerr]
            | Inr _ \<Rightarrow> []) @
           [''['' @ check_mark @ ''] Successfully exported and uploaded image '' @ imageName @
              '' to '' @ remoteFilePath], sg))"
  by (intro conjI ExportImage_returns ExportImageToCloud_returns DeleteImage_returns
      ExportImages_loop_continues ExportImagesToCloud_loop_continues DeleteImages_loop_continues
      ExportImage_save_fails ExportImage_create_fails ExportImage_copy_fails
      ExportImage_succeeds DeleteImage_remove_fails DeleteImage_succeeds
      ExportImageToCloud_mkdir_fails ExportImageToCloud_save_fails ExportImageToCloud_create_fails
      ExportImageToCloud_copy_fails ExportImageToCloud_upload_fails ExportImageToCloud_succeeds)

text \<open>
  The image \<open>b:1\<close> can be neither removed nor saved: each loop prints the failure of
  \<open>b:1\<close>, and \<open>c:1\<close>, selected after it, is removed, exported and uploaded all the same.
\<close>

theorem export_delete_continue_witness:
  "DeleteImages_loop example_cli [''a:1'', ''b:1'', ''c:1''] [] =
     (Returned,
      [''Deleting image a:1...'', ''['' @ check_mark @ ''] Successfully deleted image a:1'',
       ''Deleting image b:1...'', ''[x] Failed to delete image b:1: image is in use'',
       ''Deleting image c:1...'', ''['' @ check_mark @ ''] Successfully deleted image c:1''],
      [''a:1'', ''c:1''])
   \<and> ExportImages_loop example_cli example_fs ''/out'' [''b:1'', ''c:1''] [] =
     (Returned,
      [''Exporting image b:1 to /out/b_1_linux_amd64.tar...'',
       ''[x] Failed to export image b:1: No such image'',
       ''Exporting image c:1 to /out/c_1_linux_amd64.tar...'',
       ''['' @ check_mark @ ''] Successfully exported image c:1 to /out/c_1_linux_amd64.tar''],
      [])
   \<and> ExportImagesToCloud_loop example_cli example_fs example_pan ''/images'' [''b:1'', ''c:1''] [] =
     (Returned,
      [''Exporting image b:1 to temporary file /tmp/go-dkci/b_1_linux_amd64.tar...'',
       ''[x] Failed to export image b:1: No such image'',
       ''Exporting image c:1 to temporary file /tmp/go-dkci/c_1_linux_amd64.tar...'',
       ''Uploading /tmp/go-dkci/c_1_linux_amd64.tar to Baidu cloud path /images/c_1_linux_amd64.tar...'',
       ''['' @ check_mark @
         ''] Successfully exported and uploaded image c:1 to /images/c_1_linux_amd64.tar''],
      [])"
proof -
  have paths:
    "filepath_Join [''/out'', tarFileName ''b:1'' ''linux'' ''amd64''] = ''/out/b_1_linux_amd64.tar''"
    "filepath_Join [''/out'', tarFileName ''c:1'' ''linux'' ''amd64''] = ''/out/c_1_linux_amd64.tar''"
    "filepath_Join [''/tmp/go-dkci'', tarFileName ''b:1'' ''linux'' ''amd64''] = ''/tmp/go-dkci/b_1_linux_amd64.tar''"
    "filepath_Join [''/tmp/go-dkci'', tarFileName ''c:1'' ''linux'' ''amd64''] = ''/tmp/go-dkci/c_1_linux_amd64.tar''"
    "filepath_Join [''/images'', tarFileName ''b:1'' ''linux'' ''amd64''] = ''/images/b_1_linux_amd64.tar''"
    "filepath_Join [''/images'', tarFileName ''c:1'' ''linux'' ''amd64''] = ''/images/c_1_linux_amd64.tar''"
    by code_simp+
  have da: "DeleteImage example_cli ''a:1'' [] =
      (Returned, [''Deleting image a:1...'', ''['' @ check_mark @ ''] Successfully deleted image a:1''], [''a:1''])"
    using export_delete_continue [where cli = "example_cli" and imageName = "''a:1''" and s = "[]"
        and sa = "[''a:1'']" and u = "()",
        THEN conjunct2, THEN conjunct2, THEN conjunct2, THEN conjunct2, THEN conjunct2, THEN conjunct2,
        THEN conjunct2, THEN conjunct2, THEN conjunct2, THEN conjunct2, THEN conjunct2, THEN conjunct1,
        rule_format]
    by (simp add: example_cli_def)
  have db: "DeleteImage example_cli ''b:1'' [''a:1''] =
      (Returned, [''Deleting image b:1...'', ''[x] Failed to delete image b:1: image is in use''], [''a:1''])"
    using export_delete_continue [where cli = "example_cli" and imageName = "''b:1''"
        and s = "[''a:1'']" and sa = "[''a:1'']" and err = "''image is in use''",
        THEN conjunct2, THEN conjunct2, THEN conjunct2, THEN conjunct2, THEN conjunct2, THEN conjunct2,
        THEN conjunct2, THEN conjunct2, THEN conjunct2, THEN conjunct2, THEN conjunct1, rule_format]
    by (simp add: example_cli_def)
  have dc: "DeleteImage example_cli ''c:1'' [''a:1''] =
      (Returned, [''Deleting image c:1...'', ''['' @ check_mark @ ''] Successfully deleted image c:1''], [''a:1'', ''c:1''])"
    using export_delete_continue [where cli = "example_cli" and imageName = "''c:1''"
        and s = "[''a:1'']" and sa = "[''a:1'', ''c:1'']" and u = "()",
        THEN conjunct2, THEN conjunct2, THEN conjunct2, THEN conjunct2, THEN conjunct2, THEN conjunct2,
        THEN conjunct2, THEN conjunct2, THEN conjunct2, THEN conjunct2, THEN conjunct2, THEN conjunct1,
        rule_format]
    by (simp add: example_cli_def)
  have dloop: "DeleteImages_loop example_cli [''a:1'', ''b:1'', ''c:1''] [] =
     (Returned,
      [''Deleting image a:1...'', ''['' @ check_mark @ ''] Successfully deleted image a:1'',
       ''Deleting image b:1...'', ''[x] Failed to delete image b:1: image is in use'',
       ''Deleting image c:1...'', ''['' @ check_mark @ ''] Successfully deleted image c:1''],
      [''a:1'', ''c:1''])"
    using export_delete_continue [where cli = "example_cli" and pre = "[''a:1'']"
        and imageName = "''b:1''" and post = "[''c:1'']" and s = "[]",
        THEN conjunct2, THEN conjunct2, THEN conjunct2, THEN conjunct2, THEN conjunct2, THEN conjunct1]
    by (simp add: DeleteImages_loop_def da db dc)
  have eb: "ExportImage example_cli example_fs ''b:1'' ''/out'' [] =
      (Returned, [''Exporting image b:1 to /out/b_1_linux_amd64.tar...'',
         ''[x] Failed to export image b:1: No such image''], [])"
    using export_delete_continue [where cli = "example_cli" and fs = "example_fs"
        and imageName = "''b:1''" and s = "[]" and sa = "[]"
        and inspected = "Inr \<lparr>Os = ''linux'', Architecture = ''amd64''\<rparr>"
        and warning = "[]" and osInfo = "''linux''" and archInfo = "''amd64''"
        and destination = "''/out''" and tarFilePath = "''/out/b_1_linux_amd64.tar''" and sb = "[]"
        and err = "''No such image''",
        THEN conjunct2, THEN conjunct2, THEN conjunct2, THEN conjunct2, THEN conjunct2, THEN conjunct2,
        THEN conjunct1, rule_format]
    by (simp add: example_cli_def paths)
  have ec: "ExportImage example_cli example_fs ''c:1'' ''/out'' [] =
      (Returned, [''Exporting image c:1 to /out/c_1_linux_amd64.tar...'',
         ''['' @ check_mark @ ''] Successfully exported image c:1 to /out/c_1_linux_amd64.tar''], [])"
    using export_delete_continue [where cli = "example_cli" and fs = "example_fs"
        and imageName = "''c:1''" and s = "[]" and sa = "[]"
        and inspected = "Inr \<lparr>Os = ''linux'', Architecture = ''amd64''\<rparr>"
        and warning = "[]" and osInfo = "''linux''" and archInfo = "''amd64''"
        and destination = "''/out''" and tarFilePath = "''/out/c_1_linux_amd64.tar''" and sb = "[]"
        and sc = "[]" and sd = "[]" and imageReader = "''stream''"
        and outFile = "''/out/c_1_linux_amd64.tar''" and u = "()",
        THEN conjunct2, THEN conjunct2, THEN conjunct2, THEN conjunct2, THEN conjunct2, THEN conjunct2,
        THEN conjunct2, THEN conjunct2, THEN conjunct2, THEN conjunct1, rule_format]
    by (simp add: example_cli_def example_fs_def paths)
  have eloop: "ExportImages_loop example_cli example_fs ''/out'' [''b:1'', ''c:1''] [] =
     (Returned,
      [''Exporting image b:1 to /out/b_1_linux_amd64.tar...'',
       ''[x] Failed to export image b:1: No such image'',
       ''Exporting image c:1 to /out/c_1_linux_amd64.tar...'',
       ''['' @ check_mark @ ''] Successfully exported image c:1 to /out/c_1_linux_amd64.tar''],
      [])"
    using export_delete_continue [where cli = "example_cli" and fs = "example_fs"
        and destination = "''/out''" and pre = "[]" and imageName = "''b:1''" and post = "[''c:1'']"
        and s = "[]",
        THEN conjunct2, THEN conjunct2, THEN conjunct2, THEN conjunct1]
    by (simp add: ExportImages_loop_def eb ec)
  have cb: "ExportImageToCloud example_cli example_fs example_pan ''b:1'' ''/images'' [] =
      (Returned, [''Exporting image b:1 to temporary file /tmp/go-dkci/b_1_linux_amd64.tar...'',
         ''[x] Failed to export image b:1: No such image''], [])"
    using export_delete_continue [where cli = "example_cli" and fs = "example_fs"
        and imageName = "''b:1''" and s = "[]" and sa = "[]"
        and inspected = "Inr \<lparr>Os = ''linux'', Architecture = ''amd64''\<rparr>"
        and warning = "[]" and osInfo = "''linux''" and archInfo = "''amd64''"
        and bdfsClient = "example_pan" and cloudPath = "''/images''"
        and tempFilePath = "''/tmp/go-dkci/b_1_linux_amd64.tar''"
        and remoteFilePath = "''/images/b_1_linux_amd64.tar''" and sb = "[]" and sc = "[]"
        and u = "()" and err = "''No such image''",
        THEN conjunct2, THEN conjunct2, THEN conjunct2, THEN conjunct2, THEN conjunct2, THEN conjunct2,
        THEN conjunct2, THEN conjunct2, THEN conjunct2, THEN conjunct2, THEN conjunct2, THEN conjunct2,
        THEN conjunct2, THEN conjunct1, rule_format]
    by (simp add: example_cli_def example_fs_def paths)
  have cc: "ExportImageToCloud example_cli example_fs example_pan ''c:1'' ''/images'' [] =
      (Returned, [''Exporting image c:1 to temporary file /tmp/go-dkci/c_1_linux_amd64.tar...'',
         ''Uploading /tmp/go-dkci/c_1_linux_amd64.tar to Baidu cloud path /images/c_1_linux_amd64.tar...'',
         ''['' @ check_mark @
           ''] Successfully exported and uploaded image c:1 to /images/c_1_linux_amd64.tar''], [])"
    using export_delete_continue [where cli = "example_cli" and fs = "example_fs"
        and imageName = "''c:1''" and s = "[]" and sa = "[]"
        and inspected = "Inr \<lparr>Os = ''linux'', Architecture = ''amd64''\<rparr>"
        and warning = "[]" and osInfo = "''linux''" and archInfo = "''amd64''"
        and bdfsClient = "example_pan" and cloudPath = "''/images''"
        and tempFilePath = "''/tmp/go-dkci/c_1_linux_amd64.tar''"
        and remoteFilePath = "''/images/c_1_linux_amd64.tar''" and sb = "[]" and sc = "[]"
        and sd = "[]" and se = "[]" and sf = "[]" and sg = "[]" and u = "()"
        and imageReader = "''stream''" and outFile = "''/tmp/go-dkci/c_1_linux_amd64.tar''"
        and removed = "Inr ()",
        THEN conjunct2, THEN conjunct2, THEN conjunct2, THEN conjunct2, THEN conjunct2, THEN conjunct2,
        THEN conjunct2, THEN conjunct2, THEN conjunct2, THEN conjunct2, THEN conjunct2, THEN conjunct2,
        THEN conjunct2, THEN conjunct2, THEN conjunct2, THEN conjunct2, THEN conjunct2, rule_format]
    by (simp add: example_cli_def example_fs_def example_pan_def paths)
  have cloop: "ExportImagesToCloud_loop example_cli example_fs example_pan ''/images'' [''b:1'', ''c:1''] [] =
     (Returned,
      [''Exporting image b:1 to temporary file /tmp/go-dkci/b_1_linux_amd64.tar...'',
       ''[x] Failed to export image b:1: No such image'',
       ''Exporting image c:1 to temporary file /tmp/go-dkci/c_1_linux_amd64.tar...'',
       ''Uploading /tmp/go-dkci/c_1_linux_amd64.tar to Baidu cloud path /images/c_1_linux_amd64.tar...'',
       ''['' @ check_mark @
         ''] Successfully exported and uploaded image c:1 to /images/c_1_linux_amd64.tar''],
      [])"
    using export_delete_continue [where cli = "example_cli" and fs = "example_fs"
        and bdfsClient = "example_pan" and cloudPath = "''/images''" and pre = "[]"
        and imageName = "''b:1''" and post = "[''c:1'']" and s = "[]",
        THEN conjunct2, THEN conjunct2, THEN conjunct2, THEN conjunct2, THEN conjunct1]
    by (simp add: ExportImagesToCloud_loop_def cb cc)
  show ?thesis
    by (intro conjI dloop eloop cloop)
qed


text \<open>
  C9. \<open>importFromFile\<close> ends the process with exit code 1 when the file cannot be opened,
  when a compressed file cannot be decompressed and when the daemon cannot load the
  image, and 1 is the only code it exits with. \<open>importFromDirectory\<close>, which
  \<open>ImportImagesFromSource\<close> runs for a directory, finds the tar files, asks for the
  selection and imports the selected files one by one: it ends the process with code 1 at
  the first selected file whose import exits, with the lines printed up to there and in
  the state that import left, whatever files are selected after it. The same holds for
  the cloud: \<open>downloadAndImportFromCloud\<close> imports the downloaded file through
  \<open>ImportImagesFromSource\<close>, which for a file is \<open>importFromFile\<close>, and exits with 1 when
  that exits; \<open>ImportImagesFromCloud\<close>, over the listing of a cloud directory, ends the
  process with code 1 at the first selected file whose download and import exits,
  whatever files are selected after it.
\<close>

theorem import_failure_exits:
  "(NewClientWithOpts cli s = (Inr u, sa) \<and> os_Open fs filePath sa = (Inl err, sb) \<longrightarrow>
      importFromFile cli fs filePath s =
        (Exited 1, [''Importing image from file: '' @ filePath,
                    ''[x] Failed to open file '' @ filePath @ '': '' @ err], sb))
   \<and> (NewClientWithOpts cli s = (Inr u, sa) \<and> os_Open fs filePath sa = (Inr opened, sb) \<and>
      file_Stat fs opened sb = (Inr info, sc) \<and>
      (HasSuffix (ToLower filePath) ''.tar.gz'' \<or> HasSuffix (ToLower filePath) ''.tgz'') \<and>
      gzip_NewReader fs opened sc = (Inl err, sd) \<longrightarrow>
      importFromFile cli fs filePath s =
        (Exited 1, [''Importing image from file: '' @ filePath,
                    ''[x] Failed to create gzip reader: '' @ err], sd))
   \<and> (NewClientWithOpts cli s = (Inr u, sa) \<and> os_Open fs filePath sa = (Inr opened, sb) \<and>
      file_Stat fs opened sb = (Inr info, sc) \<and>
      (if HasSuffix (ToLower filePath) ''.tar.gz'' \<or> HasSuffix (ToLower filePath) ''.tgz''
       then gzip_NewReader fs opened sc else (Inr opened, sc)) = (Inr imageReader, sd) \<and>
      ImageLoad cli imageReader sd = (Inl err, se) \<longrightarrow>
      importFromFile cli fs filePath s =
        (Exited 1, [''Importing image from file: '' @ filePath,
                    ''[x] Failed to load image from '' @ filePath @ '': '' @ err], se))
   \<and> (importFromFile cli fs filePath s = (Exited code, out, s') \<longrightarrow> code = 1)
   \<and> (forEach (\<lambda>filePath. importFromFile cli fs filePath) pre s = (Returned, outa, ta) \<and>
      importFromFile cli fs filePath ta = (Exited code, outb, tb) \<longrightarrow>
      forEach (\<lambda>filePath. importFromFile cli fs filePath) (pre @ filePath # post) s =
        (Exited 1, outa @ outb, tb))
   \<and> (os_Stat fs source s = (Inr info, sa) \<and> \<not> IsDir info \<longrightarrow>
      ImportImagesFromSource cli fs AskOne source grepPattern s = importFromFile cli fs source sa)
   \<and> (os_Stat fs source s = (Inr info, sa) \<and> IsDir info \<longrightarrow>
      ImportImagesFromSource cli fs AskOne source grepPattern s =
        importFromDirectory cli fs AskOne source grepPattern sa)
   \<and> (findTarFilesInDirectory (filepath_Walk fs s) dirPath grepPattern = Inr tarFiles \<and> tarFiles \<noteq> [] \<and>
      AskOne ''Select .tar files to import as Docker images:''
        (importFromDirectory_selectionOptions tarFiles) s = (Inr selectedFiles, sa) \<and>
      importFromDirectory_handleAll tarFiles selectedFiles \<noteq> [] \<and>
      importFromDirectory_selectedFilePaths tarFiles (importFromDirectory_handleAll tarFiles selectedFiles) =
        pre @ filePath # post \<and>
      forEach (\<lambda>filePath. importFromFile cli fs filePath) pre sa = (Returned, outa, ta) \<and>
      importFromFile cli fs filePath ta = (Exited code, outb, tb) \<longrightarrow>
      importFromDirectory cli fs AskOne dirPath grepPattern s = (Exited 1, outa @ outb, tb))
   \<and> (os_MkdirAll fs ''/tmp/go-dkci'' s = (Inr u, sa) \<and> DownloadFile bdfsClient cloudFilePath sa = (Inr body, sb) \<and>
      os_Create fs (filepath_Join [''/tmp/go-dkci'', Base cloudFilePath]) sb = (Inr outFile, sc) \<and>
      io_Copy fs outFile body sc = (Inr u, sd) \<and>
      ImportImagesFromSource cli fs AskOne (filepath_Join [''/tmp/go-dkci'', Base cloudFilePath]) [] sd =
        (Exited code, out, se) \<longrightarrow>
      downloadAndImportFromCloud cli fs bdfsClient AskOne cloudFilePath s =
        (Exited 1,
         [''Downloading '' @ cloudFilePath @ '' from Baidu cloud to temporary file '' @
            filepath_Join [''/tmp/go-dkci'', Base cloudFilePath] @ ''...''] @ out, se))
   \<and> (downloadAndImportFromCloud cli fs bdfsClient AskOne cloudFilePath s = (Exited code, out, s') \<longrightarrow> code = 1)
   \<and> (forEach (\<lambda>filePath. downloadAndImportFromCloud cli fs bdfsClient AskOne filePath) pre s =
        (Returned, outa, ta) \<and>
      downloadAndImportFromCloud cli fs bdfsClient AskOne cloudFilePath ta = (Exited code, outb, tb) \<longrightarrow>
      forEach (\<lambda>filePath. downloadAndImportFromCloud cli fs bdfsClient AskOne filePath)
        (pre @ cloudFilePath # post) s = (Exited 1, outa @ outb, tb))
   \<and> (ImportImagesFromCloud_tarFiles grepPattern listing \<noteq> [] \<and>
      AskOne ''Select .tar files to download and import as Docker images:''
        (ImportImagesFromCloud_selectionOptions (ImportImagesFromCloud_tarFiles grepPattern listing)) s =
        (Inr selectedFiles, sa) \<and>
      ImportImagesFromCloud_handleAll (ImportImagesFromCloud_tarFiles grepPattern listing) selectedFiles \<noteq> [] \<and>
      ImportImagesFromCloud_selectedFilePaths (ImportImagesFromCloud_tarFiles grepPattern listing)
        (ImportImagesFromCloud_handleAll (ImportImagesFromCloud_tarFiles grepPattern listing) selectedFiles) =
        pre @ cloudFilePath # post \<and>
      forEach (\<lambda>filePath. downloadAndImportFromCloud cli fs bdfsClient AskOne filePath) pre sa =
        (Returned, outa, ta) \<and>
      downloadAndImportFromCloud cli fs bdfsClient AskOne cloudFilePath ta = (Exited code, outb, tb) \<longrightarrow>
      ImportImagesFromCloud_directory cli fs bdfsClient AskOne listing grepPattern s =
        (Exited 1, outa @ outb, tb))"
proof (intro conjI impI; (elim conjE)?)
  assume "NewClientWithOpts cli s = (Inr u, sa)" "os_Open fs filePath sa = (Inl err, sb)"
  then show "importFromFile cli fs filePath s =
        (Exited 1, [''Importing image from file: '' @ filePath,
                    ''[x] Failed to open file '' @ filePath @ '': '' @ err], sb)"
    by (simp add: importFromFile_def)
next
  assume "NewClientWithOpts cli s = (Inr u, sa)" "os_Open fs filePath sa = (Inr opened, sb)"
    "file_Stat fs opened sb = (Inr info, sc)"
    "HasSuffix (ToLower filePath) ''.tar.gz'' \<or> HasSuffix (ToLower filePath) ''.tgz''"
    "gzip_NewReader fs opened sc = (Inl err, sd)"
  then show "importFromFile cli fs filePath s =
        (Exited 1, [''Importing image from file: '' @ filePath,
                    ''[x] Failed to create gzip reader: '' @ err], sd)"
    by (simp add: importFromFile_def)
next
  assume "NewClientWithOpts cli s = (Inr u, sa)" "os_Open fs filePath sa = (Inr opened, sb)"
    "file_Stat fs opened sb = (Inr info, sc)"
    "(if HasSuffix (ToLower filePath) ''.tar.gz'' \<or> HasSuffix (ToLower filePath) ''.tgz''
       then gzip_NewReader fs opened sc else (Inr opened, sc)) = (Inr imageReader, sd)"
    "ImageLoad cli imageReader sd = (Inl err, se)"
  then show "importFromFile cli fs filePath s =
        (Exited 1, [''Importing image from file: '' @ filePath,
                    ''[x] Failed to load image from '' @ filePath @ '': '' @ err], se)"
    by (simp add: importFromFile_def)
next
  assume "importFromFile cli fs filePath s = (Exited code, out, s')"
  then show "code = 1" by (rule importFromFile_exit_code')
next
  assume pre: "forEach (\<lambda>filePath. importFromFile cli fs filePath) pre s = (Returned, outa, ta)"
    and x: "importFromFile cli fs filePath ta = (Exited code, outb, tb)"
  from x have "code = 1" by (rule importFromFile_exit_code')
  with forEach_exits [of "\<lambda>filePath. importFromFile cli fs filePath", OF pre x]
  show "forEach (\<lambda>filePath. importFromFile cli fs filePath) (pre @ filePath # post) s =
        (Exited 1, outa @ outb, tb)"
    by simp
next
  assume "os_Stat fs source s = (Inr info, sa)" "\<not> IsDir info"
  then show "ImportImagesFromSource cli fs AskOne source grepPattern s = importFromFile cli fs source sa"
    by (simp add: ImportImagesFromSource_def)
next
  assume "os_Stat fs source s = (Inr info, sa)" "IsDir info"
  then show "ImportImagesFromSource cli fs AskOne source grepPattern s =
        importFromDirectory cli fs AskOne source grepPattern sa"
    by (simp add: ImportImagesFromSource_def)
next
  assume found: "findTarFilesInDirectory (filepath_Walk fs s) dirPath grepPattern = Inr tarFiles"
      "tarFiles \<noteq> []"
    and asked: "AskOne ''Select .tar files to import as Docker images:''
        (importFromDirectory_selectionOptions tarFiles) s = (Inr selectedFiles, sa)"
      "importFromDirectory_handleAll tarFiles selectedFiles \<noteq> []"
    and paths: "importFromDirectory_selectedFilePaths tarFiles
        (importFromDirectory_handleAll tarFiles selectedFiles) = pre @ filePath # post"
    and pre: "forEach (\<lambda>filePath. importFromFile cli fs filePath) pre sa = (Returned, outa, ta)"
    and x: "importFromFile cli fs filePath ta = (Exited code, outb, tb)"
  from x have "code = 1" by (rule importFromFile_exit_code')
  with forEach_exits [of "\<lambda>filePath. importFromFile cli fs filePath", OF pre x]
  have "forEach (\<lambda>filePath. importFromFile cli fs filePath) (pre @ filePath # post) sa =
        (Exited 1, outa @ outb, tb)"
    by simp
  with found asked paths
  show "importFromDirectory cli fs AskOne dirPath grepPattern s = (Exited 1, outa @ outb, tb)"
    by (simp add: importFromDirectory_def Let_def)
next
  assume a: "os_MkdirAll fs ''/tmp/go-dkci'' s = (Inr u, sa)"
    "DownloadFile bdfsClient cloudFilePath sa = (Inr body, sb)"
    "os_Create fs (filepath_Join [''/tmp/go-dkci'', Base cloudFilePath]) sb = (Inr outFile, sc)"
    "io_Copy fs outFile body sc = (Inr u, sd)"
    and i: "ImportImagesFromSource cli fs AskOne (filepath_Join [''/tmp/go-dkci'', Base cloudFilePath]) [] sd =
        (Exited code, out, se)"
  from i have "code = 1" by (rule ImportImagesFromSource_exit_code)
  with a i show "downloadAndImportFromCloud cli fs bdfsClient AskOne cloudFilePath s =
        (Exited 1,
         [''Downloading '' @ cloudFilePath @ '' from Baidu cloud to temporary file '' @
            filepath_Join [''/tmp/go-dkci'', Base cloudFilePath] @ ''...''] @ out, se)"
    by (simp add: downloadAndImportFromCloud_def)
next
  assume "downloadAndImportFromCloud cli fs bdfsClient AskOne cloudFilePath s = (Exited code, out, s')"
  then show "code = 1" by (rule downloadAndImportFromCloud_exit_code)
next
  assume pre: "forEach (\<lambda>filePath. downloadAndImportFromCloud cli fs bdfsClient AskOne filePath) pre s =
        (Returned, outa, ta)"
    and x: "downloadAndImportFromCloud cli fs bdfsClient AskOne cloudFilePath ta = (Exited code, outb, tb)"
  from x have "code = 1" by (rule downloadAndImportFromCloud_exit_code)
  with forEach_exits [of "\<lambda>filePath. downloadAndImportFromCloud cli fs bdfsClient AskOne filePath", OF pre x]
  show "forEach (\<lambda>filePath. downloadAndImportFromCloud cli fs bdfsClient AskOne filePath)
        (pre @ cloudFilePath # post) s = (Exited 1, outa @ outb, tb)"
    by simp
next
  assume found: "ImportImagesFromCloud_tarFiles grepPattern listing \<noteq> []"
    and asked: "AskOne ''Select .tar files to download and import as Docker images:''
        (ImportImagesFromCloud_selectionOptions (ImportImagesFromCloud_tarFiles grepPattern listing)) s =
        (Inr selectedFiles, sa)"
      "ImportImagesFromCloud_handleAll (ImportImagesFromCloud_tarFiles grepPattern listing) selectedFiles \<noteq> []"
    and paths: "ImportImagesFromCloud_selectedFilePaths (ImportImagesFromCloud_tarFiles grepPattern listing)
        (ImportImagesFromCloud_handleAll (ImportImagesFromCloud_tarFiles grepPattern listing) selectedFiles) =
        pre @ cloudFilePath # post"
    and pre: "forEach (\<lambda>filePath. downloadAndImportFromCloud cli fs bdfsClient AskOne filePath) pre sa =
        (Returned, outa, ta)"
    and x: "downloadAndImportFromCloud cli fs bdfsClient AskOne cloudFilePath ta = (Exited code, outb, tb)"
  from x have "code = 1" by (rule downloadAndImportFromCloud_exit_code)
  with forEach_exits [of "\<lambda>filePath. downloadAndImportFromCloud cli fs bdfsClient AskOne filePath", OF pre x]
  have "forEach (\<lambda>filePath. downloadAndImportFromCloud cli fs bdfsClient AskOne filePath)
        (pre @ cloudFilePath # post) sa = (Exited 1, outa @ outb, tb)"
    by simp
  with found asked paths
  show "ImportImagesFromCloud_directory cli fs bdfsClient AskOne listing grepPattern s =
        (Exited 1, outa @ outb, tb)"
    by (simp add: ImportImagesFromCloud_directory_def Let_def)
qed

text \<open>
  The directory \<open>/d\<close> holds three tar files, all three are selected and the second cannot
  be loaded: the first is imported, the process exits with 1 at the second, and the third
  is never opened. A missing file and a broken gzip file end the process too, and so does
  a selected file of a cloud directory that cannot be loaded, before the file selected
  after it is downloaded.
\<close>

theorem import_failure_exits_witness:
  "importFromDirectory example_cli example_fs
       (\<lambda>message options s. (Inr [''a.tar'', ''corrupt.tar'', ''e.tar''], s)) ''/d'' [] [] =
     (Exited 1,
      [''Importing image from file: /d/a.tar'',
       ''['' @ check_mark @ ''] Successfully imported image from /d/a.tar: a.tar'',
       ''Importing image from file: /d/corrupt.tar'',
       ''[x] Failed to load image from /d/corrupt.tar: invalid tar header''],
      [''/d/a.tar''])
   \<and> ImportImagesFromSource example_cli example_fs
       (\<lambda>message options s. (Inr [''a.tar'', ''corrupt.tar'', ''e.tar''], s)) ''/d'' [] [] =
     (Exited 1,
      [''Importing image from file: /d/a.tar'',
       ''['' @ check_mark @ ''] Successfully imported image from /d/a.tar: a.tar'',
       ''Importing image from file: /d/corrupt.tar'',
       ''[x] Failed to load image from /d/corrupt.tar: invalid tar header''],
      [''/d/a.tar''])
   \<and> importFromFile example_cli example_fs ''/d/missing.tar'' [] =
     (Exited 1,
      [''Importing image from file: /d/missing.tar'',
       ''[x] Failed to open file /d/missing.tar: no such file or directory''], [])
   \<and> importFromFile example_cli example_fs ''/d/bad.tgz'' [] =
     (Exited 1,
      [''Importing image from file: /d/bad.tgz'',
       ''[x] Failed to create gzip reader: gzip: invalid header''], [])
   \<and> ImportImagesFromCloud_directory example_cli example_fs example_pan
       (\<lambda>message options s. (Inr [''corrupt.tar'', ''e.tar''], s))
       [\<lparr>Path = ''/cloud/corrupt.tar''\<rparr>, \<lparr>Path = ''/cloud/e.tar''\<rparr>] [] [] =
     (Exited 1,
      [''Downloading /cloud/corrupt.tar from Baidu cloud to temporary file /tmp/go-dkci/corrupt.tar...'',
       ''Importing image from file: /tmp/go-dkci/corrupt.tar'',
       ''[x] Failed to load image from /tmp/go-dkci/corrupt.tar: invalid tar header''],
      [])"
proof -
  have gz: "\<not> HasSuffix (ToLower ''/d/a.tar'') ''.tar.gz''" "\<not> HasSuffix (ToLower ''/d/a.tar'') ''.tgz''"
      "\<not> HasSuffix (ToLower ''/d/corrupt.tar'') ''.tar.gz''" "\<not> HasSuffix (ToLower ''/d/corrupt.tar'') ''.tgz''"
      "\<not> HasSuffix (ToLower ''/d/bad.tgz'') ''.tar.gz''" "HasSuffix (ToLower ''/d/bad.tgz'') ''.tgz''"
      "\<not> HasSuffix (ToLower ''/tmp/go-dkci/corrupt.tar'') ''.tar.gz''"
      "\<not> HasSuffix (ToLower ''/tmp/go-dkci/corrupt.tar'') ''.tgz''"
    by code_simp+
  have base: "Base ''/d/a.tar'' = ''a.tar''" "Base ''/d/corrupt.tar'' = ''corrupt.tar''"
      "Base ''/cloud/corrupt.tar'' = ''corrupt.tar''" "Base ''/tmp/go-dkci/corrupt.tar'' = ''corrupt.tar''"
      "filepath_Join [''/tmp/go-dkci'', ''corrupt.tar''] = ''/tmp/go-dkci/corrupt.tar''"
    by code_simp+
  have found: "findTarFilesInDirectory (filepath_Walk example_fs []) ''/d'' [] =
       Inr [''/d/a.tar'', ''/d/corrupt.tar'', ''/d/e.tar'']"
    by code_simp
  have selected: "importFromDirectory_handleAll [''/d/a.tar'', ''/d/corrupt.tar'', ''/d/e.tar'']
         [''a.tar'', ''corrupt.tar'', ''e.tar''] = [''a.tar'', ''corrupt.tar'', ''e.tar'']"
      "importFromDirectory_selectedFilePaths [''/d/a.tar'', ''/d/corrupt.tar'', ''/d/e.tar'']
         [''a.tar'', ''corrupt.tar'', ''e.tar''] = [''/d/a.tar'', ''/d/corrupt.tar'', ''/d/e.tar'']"
    by code_simp+
  have listed: "ImportImagesFromCloud_tarFiles []
         [\<lparr>Path = ''/cloud/corrupt.tar''\<rparr>, \<lparr>Path = ''/cloud/e.tar''\<rparr>] =
       [\<lparr>Path = ''/cloud/corrupt.tar''\<rparr>, \<lparr>Path = ''/cloud/e.tar''\<rparr>]"
      "ImportImagesFromCloud_handleAll [\<lparr>Path = ''/cloud/corrupt.tar''\<rparr>, \<lparr>Path = ''/cloud/e.tar''\<rparr>]
         [''corrupt.tar'', ''e.tar''] = [''corrupt.tar'', ''e.tar'']"
      "ImportImagesFromCloud_selectedFilePaths [\<lparr>Path = ''/cloud/corrupt.tar''\<rparr>, \<lparr>Path = ''/cloud/e.tar''\<rparr>]
         [''corrupt.tar'', ''e.tar''] = [''/cloud/corrupt.tar'', ''/cloud/e.tar'']"
    by code_simp+
  have a: "importFromFile example_cli example_fs ''/d/a.tar'' [] =
       (Returned, [''Importing image from file: /d/a.tar'',
         ''['' @ check_mark @ ''] Successfully imported image from /d/a.tar: a.tar''], [''/d/a.tar''])"
    by (simp add: importFromFile_def getImageInfoFromTar_def example_cli_def example_fs_def gz base)
  have corrupt: "importFromFile example_cli example_fs ''/d/corrupt.tar'' [''/d/a.tar''] =
       (Exited 1, [''Importing image from file: /d/corrupt.tar'',
            ''[x] Failed to load image from /d/corrupt.tar: invalid tar header''], [''/d/a.tar''])"
    using import_failure_exits [where cli = "example_cli" and fs = "example_fs"
        and filePath = "''/d/corrupt.tar''" and s = "[''/d/a.tar'']" and sa = "[''/d/a.tar'']"
        and sb = "[''/d/a.tar'']" and sc = "[''/d/a.tar'']" and sd = "[''/d/a.tar'']"
        and se = "[''/d/a.tar'']" and u = "()" and opened = "''/d/corrupt.tar''"
        and imageReader = "''/d/corrupt.tar''"
        and info = "\<lparr>Name = ''corrupt.tar'', IsDir = False\<rparr>"
        and err = "''invalid tar header''",
        THEN conjunct2, THEN conjunct2, THEN conjunct1, rule_format]
    by (simp add: example_cli_def example_fs_def gz base)
  have dir: "importFromDirectory example_cli example_fs
       (\<lambda>message options s. (Inr [''a.tar'', ''corrupt.tar'', ''e.tar''], s)) ''/d'' [] [] =
     (Exited 1,
      [''Importing image from file: /d/a.tar'',
       ''['' @ check_mark @ ''] Successfully imported image from /d/a.tar: a.tar'',
       ''Importing image from file: /d/corrupt.tar'',
       ''[x] Failed to load image from /d/corrupt.tar: invalid tar header''],
      [''/d/a.tar''])"
    using import_failure_exits [where cli = "example_cli" and fs = "example_fs"
        and AskOne = "\<lambda>message options s. (Inr [''a.tar'', ''corrupt.tar'', ''e.tar''], s)"
        and dirPath = "''/d''" and grepPattern = "[]"
        and tarFiles = "[''/d/a.tar'', ''/d/corrupt.tar'', ''/d/e.tar'']"
        and selectedFiles = "[''a.tar'', ''corrupt.tar'', ''e.tar'']" and pre = "[''/d/a.tar'']"
        and filePath = "''/d/corrupt.tar''" and post = "[''/d/e.tar'']" and s = "[]" and sa = "[]"
        and ta = "[''/d/a.tar'']" and tb = "[''/d/a.tar'']" and code = "1"
        and outa = "[''Importing image from file: /d/a.tar'',
            ''['' @ check_mark @ ''] Successfully imported image from /d/a.tar: a.tar'']" and outb = "[''Importing image from file: /d/corrupt.tar'',
            ''[x] Failed to load image from /d/corrupt.tar: invalid tar header'']",
        THEN conjunct2, THEN conjunct2, THEN conjunct2, THEN conjunct2, THEN conjunct2, THEN conjunct2,
        THEN conjunct2, THEN conjunct1, rule_format]
      found selected a corrupt
    by simp
  have src: "ImportImagesFromSource example_cli example_fs
       (\<lambda>message options s. (Inr [''a.tar'', ''corrupt.tar'', ''e.tar''], s)) ''/d'' [] [] =
     (Exited 1,
      [''Importing image from file: /d/a.tar'',
       ''['' @ check_mark @ ''] Successfully imported image from /d/a.tar: a.tar'',
       ''Importing image from file: /d/corrupt.tar'',
       ''[x] Failed to load image from /d/corrupt.tar: invalid tar header''],
      [''/d/a.tar''])"
    using import_failure_exits [where cli = "example_cli" and fs = "example_fs"
        and AskOne = "\<lambda>message options s. (Inr [''a.tar'', ''corrupt.tar'', ''e.tar''], s)"
        and source = "''/d''" and grepPattern = "[]" and s = "[]" and sa = "[]"
        and info = "\<lparr>Name = Base ''/d'', IsDir = True\<rparr>",
        THEN conjunct2, THEN conjunct2, THEN conjunct2, THEN conjunct2, THEN conjunct2, THEN conjunct2,
        THEN conjunct1, rule_format]
      dir
    by (simp add: example_fs_def)
  have missing: "importFromFile example_cli example_fs ''/d/missing.tar'' [] =
     (Exited 1,
      [''Importing image from file: /d/missing.tar'',
       ''[x] Failed to open file /d/missing.tar: no such file or directory''], [])"
    using import_failure_exits [where cli = "example_cli" and fs = "example_fs"
        and filePath = "''/d/missing.tar''" and s = "[]" and sa = "[]" and sb = "[]" and u = "()"
        and err = "''no such file or directory''",
        THEN conjunct1, rule_format]
    by (simp add: example_cli_def example_fs_def)
  have bad: "importFromFile example_cli example_fs ''/d/bad.tgz'' [] =
     (Exited 1,
      [''Importing image from file: /d/bad.tgz'',
       ''[x] Failed to create gzip reader: gzip: invalid header''], [])"
    using import_failure_exits [where cli = "example_cli" and fs = "example_fs"
        and filePath = "''/d/bad.tgz''" and s = "[]" and sa = "[]" and sb = "[]" and sc = "[]"
        and sd = "[]" and u = "()" and opened = "''/d/bad.tgz''"
        and info = "\<lparr>Name = Base ''/d/bad.tgz'', IsDir = False\<rparr>"
        and err = "''gzip: invalid header''",
        THEN conjunct2, THEN conjunct1, rule_format]
    by (simp add: example_cli_def example_fs_def gz)
  have tmpfile: "importFromFile example_cli example_fs ''/tmp/go-dkci/corrupt.tar'' [] =
       (Exited 1, [''Importing image from file: /tmp/go-dkci/corrupt.tar'',
          ''[x] Failed to load image from /tmp/go-dkci/corrupt.tar: invalid tar header''], [])"
    using import_failure_exits [where cli = "example_cli" and fs = "example_fs"
        and filePath = "''/tmp/go-dkci/corrupt.tar''" and s = "[]" and sa = "[]" and sb = "[]"
        and sc = "[]" and sd = "[]" and se = "[]" and u = "()"
        and opened = "''/tmp/go-dkci/corrupt.tar''" and imageReader = "''/tmp/go-dkci/corrupt.tar''"
        and info = "\<lparr>Name = ''corrupt.tar'', IsDir = False\<rparr>"
        and err = "''invalid tar header''",
        THEN conjunct2, THEN conjunct2, THEN conjunct1, rule_format]
    by (simp add: example_cli_def example_fs_def gz base)
  have tmpsrc: "ImportImagesFromSource example_cli example_fs (\<lambda>message options s. (Inr [''corrupt.tar'', ''e.tar''], s))
         ''/tmp/go-dkci/corrupt.tar'' [] [] =
       importFromFile example_cli example_fs ''/tmp/go-dkci/corrupt.tar'' []"
    using import_failure_exits [where cli = "example_cli" and fs = "example_fs"
        and AskOne = "\<lambda>message options s. (Inr [''corrupt.tar'', ''e.tar''], s)"
        and source = "''/tmp/go-dkci/corrupt.tar''" and grepPattern = "[]" and s = "[]"
        and sa = "[]" and info = "\<lparr>Name = ''corrupt.tar'', IsDir = False\<rparr>",
        THEN conjunct2, THEN conjunct2, THEN conjunct2, THEN conjunct2, THEN conjunct2, THEN conjunct1,
        rule_format]
    by (simp add: example_fs_def base)
  have cfile: "downloadAndImportFromCloud example_cli example_fs example_pan
         (\<lambda>message options s. (Inr [''corrupt.tar'', ''e.tar''], s)) ''/cloud/corrupt.tar'' [] =
       (Exited 1,
        [''Downloading /cloud/corrupt.tar from Baidu cloud to temporary file /tmp/go-dkci/corrupt.tar...'',
       ''Importing image from file: /tmp/go-dkci/corrupt.tar'',
       ''[x] Failed to load image from /tmp/go-dkci/corrupt.tar: invalid tar header''],
        [])"
    using import_failure_exits [where cli = "example_cli" and fs = "example_fs"
        and bdfsClient = "example_pan"
        and AskOne = "\<lambda>message options s. (Inr [''corrupt.tar'', ''e.tar''], s)"
        and cloudFilePath = "''/cloud/corrupt.tar''" and s = "[]" and sa = "[]" and sb = "[]"
        and sc = "[]" and sd = "[]" and se = "[]" and u = "()" and body = "''content''"
        and outFile = "''/tmp/go-dkci/corrupt.tar''" and code = "1"
        and out = "[''Importing image from file: /tmp/go-dkci/corrupt.tar'',
          ''[x] Failed to load image from /tmp/go-dkci/corrupt.tar: invalid tar header'']",
        THEN conjunct2, THEN conjunct2, THEN conjunct2, THEN conjunct2, THEN conjunct2, THEN conjunct2,
        THEN conjunct2, THEN conjunct2, THEN conjunct1, rule_format]
      tmpsrc tmpfile
    by (simp add: example_fs_def example_pan_def base)
  have cloud: "ImportImagesFromCloud_directory example_cli example_fs example_pan
       (\<lambda>message options s. (Inr [''corrupt.tar'', ''e.tar''], s))
       [\<lparr>Path = ''/cloud/corrupt.tar''\<rparr>, \<lparr>Path = ''/cloud/e.tar''\<rparr>] [] [] =
     (Exited 1,
      [''Downloading /cloud/corrupt.tar from Baidu cloud to temporary file /tmp/go-dkci/corrupt.tar...'',
       ''Importing image from file: /tmp/go-dkci/corrupt.tar'',
       ''[x] Failed to load image from /tmp/go-dkci/corrupt.tar: invalid tar header''],
      [])"
    using import_failure_exits [where cli = "example_cli" and fs = "example_fs"
        and bdfsClient = "example_pan"
        and AskOne = "\<lambda>message options s. (Inr [''corrupt.tar'', ''e.tar''], s)"
        and listing = "[\<lparr>Path = ''/cloud/corrupt.tar''\<rparr>, \<lparr>Path = ''/cloud/e.tar''\<rparr>]"
        and grepPattern = "[]" and selectedFiles = "[''corrupt.tar'', ''e.tar'']" and pre = "[]"
        and cloudFilePath = "''/cloud/corrupt.tar''" and post = "[''/cloud/e.tar'']" and s = "[]"
        and sa = "[]" and ta = "[]" and tb = "[]" and code = "1" and outa = "[]"
        and outb = "[''Downloading /cloud/corrupt.tar from Baidu cloud to temporary file /tmp/go-dkci/corrupt.tar...'',
       ''Importing image from file: /tmp/go-dkci/corrupt.tar'',
       ''[x] Failed to load image from /tmp/go-dkci/corrupt.tar: invalid tar header'']",
        THEN conjunct2, THEN conjunct2, THEN conjunct2, THEN conjunct2, THEN conjunct2, THEN conjunct2,
        THEN conjunct2, THEN conjunct2, THEN conjunct2, THEN conjunct2, THEN conjunct2, rule_format]
      listed cfile
    by simp
  show ?thesis
    by (intro conjI dir src missing bad cloud)
qed

end
